theory Spec2Isabelle
  imports Complex_Main
begin

section \<open>Transfer workflow (src/components/modals/TransferModal.vue)\<close>

subsection \<open>Data model\<close>

text \<open>
  The \<^verbatim>\<open>Account\<close> interface of \<^verbatim>\<open>models.d.ts\<close>. The date fields and the back
  reference to the owning user are read by none of the functions below and are left out.
  A JavaScript \<^verbatim>\<open>number\<close> that carries money is a real here (the finite doubles
  are among the reals); comparisons are exact, as they are on doubles, and the one sum the
  validation computes is rounded as IEEE 754 rounds it, see \<open>js_add\<close> below.
\<close>

record Account =
  account_id :: int
  accountNumber :: string
  accountName :: string
  accountType :: string
  balance :: real
  currency :: string
  dailyTransferLimit :: real
  dailyWithdrawalLimit :: real
  singleTransferLimit :: real
  singleWithdrawalLimit :: real
  transferUsedToday :: real
  withdrawalUsedToday :: real

subsection \<open>Addition of doubles\<close>

text \<open>
  \<open>binade z\<close> is the exponent \<open>e\<close> with \<open>2\<^sup>e \<le> z < 2\<^sup>e\<^sup>+\<^sup>1\<close> of a positive \<open>z\<close>,
  computed on the integer part of \<open>z\<close> or of its inverse.
\<close>

fun log2_nat :: "nat \<Rightarrow> nat" where
  "log2_nat n = (if n < 2 then 0 else Suc (log2_nat (n div 2)))"

declare log2_nat.simps [simp del]

definition binade :: "real \<Rightarrow> int" where
  "binade z =
     (if 1 \<le> z then int (log2_nat (nat \<lfloor>z\<rfloor>))
      else - int (Suc (log2_nat (nat (\<lceil>1 / z\<rceil> - 1)))))"

text \<open>Rounding to the nearest integer, a tie going to the even one.\<close>

definition round_half_even :: "real \<Rightarrow> int" where
  "round_half_even x =
     (let f = \<lfloor>x\<rfloor>; d = x - of_int f
      in if d < 1 / 2 then f else if 1 / 2 < d then f + 1
         else if even f then f else f + 1)"

text \<open>
  Rounding to a significand of 53 bits: the result is the multiple of the unit in the last
  place of \<open>z\<close>'s binade that is nearest to \<open>z\<close>, ties to even. \<^verbatim>\<open>x + y\<close> on two
  numbers is the exact sum rounded so. The sum of two doubles that falls in the subnormal
  range is a multiple of the least double and comes out unchanged; a sum of \<open>2\<^sup>1\<^sup>0\<^sup>2\<^sup>4\<close> or
  more, which JavaScript turns into \<^verbatim>\<open>Infinity\<close>, is not modelled.
\<close>

definition round53 :: "real \<Rightarrow> real" where
  "round53 z =
     (if z = 0 then 0
      else (let u = 2 powi (binade \<bar>z\<bar> - 52)
            in u * of_int (round_half_even (z / u))))"

definition js_add :: "real \<Rightarrow> real \<Rightarrow> real" where
  "js_add x y = round53 (x + y)"

subsection \<open>The form\<close>

text \<open>
  The \<^verbatim>\<open>TransferPreview\<close> answer of the preview endpoint; the quote is kept as rate and
  converted amount.
\<close>

record TransferPreview =
  currencyExchangeApplied :: bool
  exchangeRate :: "real option"
  convertedAmount :: "real option"
  previewMessage :: string

text \<open>
  The amount field is \<^verbatim>\<open>ref<number | null>\<close> bound with \<^verbatim>\<open>v-model\<close> to an
  \<^verbatim>\<open><input type="number">\<close>: it holds \<^verbatim>\<open>null\<close> after a reset, the empty string while
  the input is empty, and a number otherwise.
\<close>

datatype amount_field = Null | Empty | Num real

text \<open>JavaScript truthiness of the amount: \<^verbatim>\<open>null\<close>, \<^verbatim>\<open>''\<close> and \<^verbatim>\<open>0\<close> are falsy.\<close>

fun truthy_amount :: "amount_field \<Rightarrow> bool" where
  "truthy_amount Null = False"
| "truthy_amount Empty = False"
| "truthy_amount (Num a) = (a \<noteq> 0)"

text \<open>JavaScript truthiness of a \<^verbatim>\<open>string | null\<close>: \<^verbatim>\<open>null\<close> and \<^verbatim>\<open>''\<close> are falsy.\<close>

fun truthy_str :: "string option \<Rightarrow> bool" where
  "truthy_str None = False"
| "truthy_str (Some s) = (s \<noteq> [])"

text \<open>
  The reactive state of the component that the modelled functions read or write, with the
  \<^verbatim>\<open>byEmployee\<close> prop and the account list of the account store
  (\<^verbatim>\<open>availableFromAccounts\<close>).
\<close>

record modal =
  fromAccount :: "Account option"
  toAccount :: string
  amount :: amount_field
  description :: string
  isProcessing :: bool
  error :: "string option"
  amountError :: "string option"
  toAccountError :: "string option"
  transferPreview :: "TransferPreview option"
  showExchangeInfo :: bool
  isLoadingPreview :: bool
  byEmployee :: bool
  availableFromAccounts :: "Account list"

subsection \<open>Form validity\<close>

text \<open>
  The check mark U+2713 that prefixes the informational annotation, as its UTF-8 bytes;
  \<^verbatim>\<open>toAccountError.value[0] == '\<dots>'\<close> compares the first character with it.
\<close>

definition check_mark :: string where
  "check_mark = [CHR 0xE2, CHR 0x9C, CHR 0x93]"

definition isFormValid :: "modal \<Rightarrow> bool" where
  "isFormValid m \<longleftrightarrow>
     fromAccount m \<noteq> None \<and>
     toAccount m \<noteq> [] \<and>
     truthy_amount (amount m) \<and>
     (case amount m of Num a \<Rightarrow> a > 0 | _ \<Rightarrow> False) \<and>
     \<not> truthy_str (amountError m) \<and>
     (\<not> truthy_str (toAccountError m) \<or>
      (case toAccountError m of Some s \<Rightarrow> take 3 s = check_mark | None \<Rightarrow> False))"

subsection \<open>Amount validation\<close>

text \<open>
  \<^verbatim>\<open>validateAmount\<close>. \<^verbatim>\<open>formatCurrency\<close> wraps \<^verbatim>\<open>Intl.NumberFormat\<close> and is a
  parameter. \<^verbatim>\<open>transferUsedToday + amount.value\<close> is the one arithmetic operation.
\<close>

definition validateAmount :: "(real \<Rightarrow> string \<Rightarrow> string) \<Rightarrow> modal \<Rightarrow> modal" where
  "validateAmount formatCurrency m =
     (let m0 = m\<lparr>amountError := None\<rparr> in
      if \<not> truthy_amount (amount m0) then m0
      else case fromAccount m0 of
        None \<Rightarrow> m0
      | Some acc \<Rightarrow>
         (case amount m0 of
            Num a \<Rightarrow>
              if a \<le> 0 then
                m0\<lparr>amountError := Some ''Amount must be greater than zero''\<rparr>
              else if a > balance acc then
                m0\<lparr>amountError := Some ''Insufficient funds''\<rparr>
              else if a > singleTransferLimit acc then
                m0\<lparr>amountError := Some (''Exceeds single transfer limit of '' @
                       formatCurrency (singleTransferLimit acc) (currency acc))\<rparr>
              else
                (let newTransferTotal = js_add (transferUsedToday acc) a in
                 if newTransferTotal > dailyTransferLimit acc then
                   m0\<lparr>amountError := Some (''Exceeds daily transfer limit of '' @
                          formatCurrency (dailyTransferLimit acc) (currency acc))\<rparr>
                 else m0)
          | _ \<Rightarrow> m0))"

text \<open>
  The synchronous head of \<^verbatim>\<open>submitTransfer\<close>, up to the request: nothing is sent unless
  the form is valid. The payload is source number, destination, amount, description and
  \<^verbatim>\<open>acceptExchangeRate\<close>; the preview request below sends the same payload without
  the last field.
\<close>

definition needsCurrencyConversion :: "modal \<Rightarrow> bool" where
  "needsCurrencyConversion m =
     (case transferPreview m of Some p \<Rightarrow> currencyExchangeApplied p | None \<Rightarrow> False)"

record transferData =
  td_fromAccount :: "string option"
  td_toAccount :: string
  td_amount :: amount_field
  td_description :: string
  td_acceptExchangeRate :: "bool option"

definition submitTransfer_start :: "modal \<Rightarrow> modal \<times> transferData option" where
  "submitTransfer_start m =
     (if \<not> isFormValid m then (m, None)
      else (m\<lparr>isProcessing := True, error := None\<rparr>,
            Some \<lparr>td_fromAccount = map_option accountNumber (fromAccount m),
                  td_toAccount = toAccount m,
                  td_amount = amount m,
                  td_description = (if description m = [] then ''Transfer'' else description m),
                  td_acceptExchangeRate = Some (needsCurrencyConversion m)\<rparr>))"

subsection \<open>Destination validation\<close>

text \<open>
  How an HTTP call settles: fulfilled with the response data, or rejected with the status
  of the response when one was received (\<open>None\<close>: no response at all).
\<close>

datatype 'a response = Ok 'a | Err "nat option"

definition isOwnAccountTransfer :: "modal \<Rightarrow> bool" where
  "isOwnAccountTransfer m =
     (case fromAccount m of
        None \<Rightarrow> False
      | Some src \<Rightarrow>
          if toAccount m = [] then False
          else
            (let isOwn = list_ex (\<lambda>acc. accountNumber acc = toAccount m) (availableFromAccounts m);
                 isDifferent = (toAccount m \<noteq> accountNumber src)
             in isOwn \<and> isDifferent))"

text \<open>
  \<^verbatim>\<open>validateToAccount\<close> is an async function with one \<^verbatim>\<open>await\<close>. Its head runs up to
  the lookup call and yields the URL requested, if any; its tail runs when the lookup
  settles, on the state of that moment.
\<close>

definition validateToAccount_start :: "modal \<Rightarrow> modal \<times> string option" where
  "validateToAccount_start m =
     (let m0 = m\<lparr>toAccountError := None\<rparr> in
      if toAccount m0 = [] then (m0, None)
      else if (case fromAccount m0 of
                 Some src \<Rightarrow> toAccount m0 = accountNumber src
               | None \<Rightarrow> False)
      then (m0\<lparr>toAccountError := Some ''Cannot transfer to the same account''\<rparr>, None)
      else (m0, Some (''/account/details/'' @ toAccount m0)))"

definition validateToAccount_settle :: "unit response \<Rightarrow> modal \<Rightarrow> modal" where
  "validateToAccount_settle r m =
     (case r of
        Ok _ \<Rightarrow>
          if isOwnAccountTransfer m then
            (let targetAccount =
                   find (\<lambda>acc. accountNumber acc = toAccount m) (availableFromAccounts m)
             in if byEmployee m then
                  m\<lparr>toAccountError := Some (''Can'' @ [CHR 0x27] @ ''t transfer to your own account'')\<rparr>
                else
                  (case targetAccount of
                     Some t \<Rightarrow>
                       m\<lparr>toAccountError := Some (check_mark @ '' Transfer to your '' @
                              accountName t @ '' ('' @ currency t @ '')'')\<rparr>
                   | None \<Rightarrow> m))
          else m
      | Err st \<Rightarrow> if st = Some 404 then m\<lparr>toAccountError := None\<rparr> else m)"

text \<open>
  The whole call when nothing else runs while the lookup is pending: the resulting state
  and the lookups issued. \<open>api\<close> is the remote endpoint.
\<close>

definition validateToAccount :: "(string \<Rightarrow> unit response) \<Rightarrow> modal \<Rightarrow> modal \<times> string list" where
  "validateToAccount api m =
     (case validateToAccount_start m of
        (m1, None) \<Rightarrow> (m1, [])
      | (m1, Some u) \<Rightarrow> (validateToAccount_settle (api u) m1, [u]))"

subsection \<open>Transfer preview\<close>








section \<open>Session state (src/stores/auth.store.ts)\<close>

subsection \<open>Numbers and their decimal strings\<close>

text \<open>
  The expiry is a JavaScript \<^verbatim>\<open>number\<close> holding epoch milliseconds. Such numbers are
  integers here (the range in which a double is exact and prints in plain decimal), with
  \<open>NaN\<close> for what \<^verbatim>\<open>Number(\<dots>)\<close> cannot read. A clock reading
  (\<^verbatim>\<open>new Date().getTime()\<close>, \<^verbatim>\<open>Date.now()\<close>) is a natural number.
\<close>

datatype js_number = Finite int | NaN

definition digit_char :: "nat \<Rightarrow> char" where
  "digit_char d = char_of (48 + d)"

definition is_digit :: "char \<Rightarrow> bool" where
  "is_digit c \<longleftrightarrow> 48 \<le> (of_char c :: nat) \<and> (of_char c :: nat) \<le> 57"

fun nat_toString :: "nat \<Rightarrow> string" where
  "nat_toString n =
     (if n < 10 then [digit_char n]
      else nat_toString (n div 10) @ [digit_char (n mod 10)])"

declare nat_toString.simps [simp del]

text \<open>\<^verbatim>\<open>Number.prototype.toString\<close> on an integer.\<close>

definition toString :: "int \<Rightarrow> string" where
  "toString n = (if n < 0 then CHR ''-'' # nat_toString (nat (- n)) else nat_toString (nat n))"

definition digits_value :: "string \<Rightarrow> nat" where
  "digits_value s = foldl (\<lambda>acc c. 10 * acc + (of_char c - 48)) 0 s"

text \<open>
  \<^verbatim>\<open>Number(s)\<close> on the empty string and on decimal integer literals with an optional
  minus sign, which are the strings \<open>toString\<close> writes. Every other string reads as
  \<open>NaN\<close> here; JavaScript also reads fractions, exponents, hexadecimal literals and
  surrounding white space, which no theorem below feeds it.
\<close>

definition js_Number :: "string \<Rightarrow> js_number" where
  "js_Number s =
     (if s = [] then Finite 0
      else if list_all is_digit s then Finite (int (digits_value s))
      else case s of
        c # ds \<Rightarrow> if c = CHR ''-'' \<and> ds \<noteq> [] \<and> list_all is_digit ds
                  then Finite (- int (digits_value ds)) else NaN
      | [] \<Rightarrow> NaN)"

text \<open>Truthiness of a \<^verbatim>\<open>number | null\<close>: \<^verbatim>\<open>null\<close>, \<^verbatim>\<open>0\<close> and \<^verbatim>\<open>NaN\<close> are falsy.\<close>

fun truthy_num :: "js_number option \<Rightarrow> bool" where
  "truthy_num None = False"
| "truthy_num (Some NaN) = False"
| "truthy_num (Some (Finite n)) = (n \<noteq> 0)"

subsection \<open>The store\<close>

text \<open>The \<^verbatim>\<open>User\<close> interface of \<^verbatim>\<open>models.d.ts\<close>, without its account list.\<close>

record User =
  user_id :: int
  username :: string
  name :: string
  email :: string
  role :: string
  enabled :: bool

text \<open>The state of the store, as the \<^verbatim>\<open>AuthState\<close> interface declares it.\<close>

record AuthState =
  token :: "string option"
  refreshToken :: "string option"
  user :: "User option"
  expiresAt :: "js_number option"
  isAuthenticated :: bool

text \<open>
  The argument of \<^verbatim>\<open>setSession\<close>: the body of the login response, with
  \<^verbatim>\<open>expiresIn\<close> in whole seconds.
\<close>

record authResult =
  result_token :: string
  result_refreshToken :: string
  result_user :: User
  expiresIn :: int

text \<open>
  The store is built by \<^verbatim>\<open>defineStore\<close> from the state, the getters and the actions, all
  under their own names on one object. The state field \<^verbatim>\<open>refreshToken\<close> and the action
  \<^verbatim>\<open>refreshToken\<close> share a name, and the action is put on the object after the state:
  the key \<^verbatim>\<open>refreshToken\<close> of the store holds the action, until an assignment
  \<^verbatim>\<open>this.refreshToken = \<dots>\<close> replaces it by a value. The state field keeps what the
  state function gave it and is reached through this key by nobody.
\<close>

datatype store_key = TheAction | Assigned "string option"

text \<open>Truthiness of what the key holds: a function is truthy.\<close>

fun truthy_key :: "store_key \<Rightarrow> bool" where
  "truthy_key TheAction = True"
| "truthy_key (Assigned v) = truthy_str v"

text \<open>
  A getter is a computed value: it is evaluated when read for the first time and its
  result is kept until a state field it read during that evaluation changes; the clock is
  no such field. \<open>Cached v e\<close> is the kept result \<open>v\<close>, with \<open>e\<close> telling whether the
  evaluation read \<^verbatim>\<open>expiresAt\<close> (it reads \<^verbatim>\<open>token\<close> always).
\<close>

datatype getter_cache = Dirty | Cached bool bool

text \<open>
  What the store acts on: its state, what its key \<^verbatim>\<open>refreshToken\<close> holds, the kept
  result of the getter \<^verbatim>\<open>isLoggedIn\<close>, the browser's \<^verbatim>\<open>localStorage\<close>, the requests it
  has sent and whether it has redirected to the login page.
\<close>

datatype api_call = PostLogout string | GetValidate string

record session =
  auth :: AuthState
  refreshTokenKey :: store_key
  isLoggedInCache :: getter_cache
  localStorage :: "string \<rightharpoonup> string"
  requests :: "api_call list"
  redirected :: bool

text \<open>\<^verbatim>\<open>x || null\<close> on a \<^verbatim>\<open>string | null\<close>.\<close>

definition or_null :: "string option \<Rightarrow> string option" where
  "or_null x = (if truthy_str x then x else None)"

text \<open>
  \<^verbatim>\<open>safeJsonParse\<close>. \<^verbatim>\<open>JSON.parse\<close> is a parameter that yields \<open>None\<close> where it
  throws.
\<close>

definition safeJsonParse :: "(string \<Rightarrow> User option) \<Rightarrow> string option \<Rightarrow> User option" where
  "safeJsonParse parse v =
     (case v of
        None \<Rightarrow> None
      | Some s \<Rightarrow> if s = [] \<or> s = ''null'' \<or> s = ''undefined'' then None else parse s)"

text \<open>The \<^verbatim>\<open>state\<close> function of the store: it reads \<^verbatim>\<open>localStorage\<close>.\<close>

definition initialState :: "(string \<Rightarrow> User option) \<Rightarrow> (string \<rightharpoonup> string) \<Rightarrow> AuthState" where
  "initialState parse ls =
     \<lparr>token = or_null (ls ''token''),
      refreshToken = or_null (ls ''refresh_token''),
      user = safeJsonParse parse (ls ''user''),
      expiresAt = Some (js_Number (case or_null (ls ''token_expires_at'') of
                                     None \<Rightarrow> ''0'' | Some v \<Rightarrow> v)),
      isAuthenticated = False\<rparr>"

text \<open>
  A fresh store instance over a given \<^verbatim>\<open>localStorage\<close>: the key holds the action and
  the getter has not been evaluated.
\<close>

definition initialStore :: "(string \<Rightarrow> User option) \<Rightarrow> (string \<rightharpoonup> string) \<Rightarrow> session" where
  "initialStore parse ls =
     \<lparr>auth = initialState parse ls, refreshTokenKey = TheAction, isLoggedInCache = Dirty,
      localStorage = ls, requests = [], redirected = False\<rparr>"

text \<open>
  A write to the state: the kept result of the getter is dropped when a field the getter
  read is given a different value.
\<close>

definition write_state :: "AuthState \<Rightarrow> session \<Rightarrow> session" where
  "write_state new se =
     se\<lparr>auth := new,
        isLoggedInCache :=
          (case isLoggedInCache se of
             Dirty \<Rightarrow> Dirty
           | Cached v e \<Rightarrow>
               if token new \<noteq> token (auth se) \<or> (e \<and> expiresAt new \<noteq> expiresAt (auth se))
               then Dirty else Cached v e)\<rparr>"

text \<open>The body of the getter \<^verbatim>\<open>isLoggedIn\<close>, evaluated at the clock reading \<open>now\<close>.\<close>

definition isLoggedIn_body :: "AuthState \<Rightarrow> nat \<Rightarrow> bool" where
  "isLoggedIn_body s now =
     (if \<not> truthy_str (token s) \<or> \<not> truthy_num (expiresAt s) then False
      else case expiresAt s of
             Some (Finite e) \<Rightarrow> e > int now
           | _ \<Rightarrow> False)"

text \<open>
  Reading \<^verbatim>\<open>isLoggedIn\<close> at the clock reading \<open>now\<close>: the kept result if there is one,
  else the body is evaluated and its result kept.
\<close>

definition isLoggedIn :: "nat \<Rightarrow> session \<Rightarrow> bool \<times> session" where
  "isLoggedIn now se =
     (case isLoggedInCache se of
        Cached v e \<Rightarrow> (v, se)
      | Dirty \<Rightarrow>
          (let v = isLoggedIn_body (auth se) now
           in (v, se\<lparr>isLoggedInCache := Cached v (truthy_str (token (auth se)))\<rparr>)))"

text \<open>
  \<^verbatim>\<open>setSession\<close>, at the clock reading \<open>now\<close>. \<^verbatim>\<open>JSON.stringify\<close> is a parameter. The
  assignment to \<^verbatim>\<open>this.refreshToken\<close> lands on the key of the store.
\<close>

definition setSession :: "(User \<Rightarrow> string) \<Rightarrow> nat \<Rightarrow> authResult \<Rightarrow> session \<Rightarrow> session" where
  "setSession stringify now r se =
     (let expiry = int now + expiresIn r * 1000;
          se1 = write_state ((auth se)\<lparr>token := Some (result_token r),
                                       user := Some (result_user r),
                                       expiresAt := Some (Finite expiry),
                                       isAuthenticated := True\<rparr>) se
      in se1\<lparr>refreshTokenKey := Assigned (Some (result_refreshToken r)),
             localStorage := (localStorage se)
               (''token'' \<mapsto> result_token r,
                ''refresh_token'' \<mapsto> result_refreshToken r,
                ''user'' \<mapsto> stringify (result_user r),
                ''token_expires_at'' \<mapsto> toString expiry)\<rparr>)"

text \<open>
  \<^verbatim>\<open>logout\<close>: the logout call is sent and not awaited, its failure is ignored.
\<close>

definition logout :: "session \<Rightarrow> session" where
  "logout se =
     (let se1 = write_state ((auth se)\<lparr>token := None, user := None, expiresAt := None,
                                       isAuthenticated := False\<rparr>) se
      in se1\<lparr>refreshTokenKey := Assigned None,
             localStorage := (localStorage se)
               (''token'' := None, ''refresh_token'' := None, ''user'' := None,
                ''token_expires_at'' := None),
             requests := requests se @
               (case token (auth se) of
                  Some t \<Rightarrow> if t = [] then [] else [PostLogout t]
                | None \<Rightarrow> []),
             redirected := True\<rparr>)"

text \<open>
  \<^verbatim>\<open>validateToken\<close>, at the clock reading \<open>now\<close>; \<open>api\<close> is the validate endpoint, asked
  with the bearer token. Nothing else is taken to run while the call is pending.
\<close>

definition validateToken :: "(string \<Rightarrow> User response) \<Rightarrow> nat \<Rightarrow> session \<Rightarrow> User option \<times> session" where
  "validateToken api now se =
     (case isLoggedIn now se of
        (loggedIn, se0) \<Rightarrow>
          if \<not> loggedIn then (None, se0)
          else
            (case token (auth se0) of
               None \<Rightarrow> (None, se0)
             | Some t \<Rightarrow>
                 if t = [] then (None, se0)
                 else
                   (let se1 = se0\<lparr>requests := requests se0 @ [GetValidate t]\<rparr> in
                    (case api t of
                       Ok u \<Rightarrow> (Some u, write_state ((auth se1)\<lparr>user := Some u\<rparr>) se1)
                     | Err st \<Rightarrow>
                         (None, if st = None \<or> st = Some 401 then logout se1 else se1)))))"

text \<open>
  The body of the action \<^verbatim>\<open>refreshToken\<close>: one \<^verbatim>\<open>try\<close> block around the test of
  \<^verbatim>\<open>this.refreshToken\<close> and the call of \<^verbatim>\<open>this.validateToken()\<close>. The callee is a
  parameter that completes by returning a value or by throwing; the store's own callee is
  \<open>validateToken\<close> above.
\<close>

datatype 'a completion = Returned 'a | Thrown

definition refreshToken_with ::
    "(session \<Rightarrow> User option completion \<times> session) \<Rightarrow> session \<Rightarrow> bool \<times> session" where
  "refreshToken_with callee se =
     (if \<not> truthy_key (refreshTokenKey se) then (False, se)
      else case callee se of
             (Returned u, se') \<Rightarrow> (u \<noteq> None, se')
           | (Thrown, se') \<Rightarrow> (False, se'))"

text \<open>
  The call \<^verbatim>\<open>authStore.refreshToken()\<close>: it runs the action while the key holds it, and
  throws a \<^verbatim>\<open>TypeError\<close> once the key holds a string or \<^verbatim>\<open>null\<close>.
\<close>

definition refreshTokenAction ::
    "(string \<Rightarrow> User response) \<Rightarrow> nat \<Rightarrow> session \<Rightarrow> bool completion \<times> session" where
  "refreshTokenAction api now se =
     (case refreshTokenKey se of
        TheAction \<Rightarrow>
          (case refreshToken_with
                  (\<lambda>x. case validateToken api now x of (u, x') \<Rightarrow> (Returned u, x')) se of
             (b, se') \<Rightarrow> (Returned b, se'))
      | Assigned v \<Rightarrow> (Thrown, se))"

section \<open>Rate cache (src/services/CurrencyService.ts)\<close>

text \<open>
  The service holds \<^verbatim>\<open>exchangeRatesCache\<close>, a map from the key \<^verbatim>\<open>from_to\<close> to a rate and
  the clock reading at which it was stored. \<open>rateRequests\<close> lists the calls made to the
  exchange-rate endpoint, as (\<^verbatim>\<open>fromCurrency\<close>, \<^verbatim>\<open>toCurrency\<close>).
\<close>

record cache_entry =
  rate :: real
  timestamp :: nat

record CurrencyService =
  exchangeRatesCache :: "string \<rightharpoonup> cache_entry"
  rateRequests :: "(string \<times> string) list"

definition CACHE_DURATION :: int where
  "CACHE_DURATION = 5 * 60 * 1000"

definition fallbackRatesToEur :: "string \<Rightarrow> real" where
  "fallbackRatesToEur c =
     (if c = ''USD'' then 0.93 else if c = ''GBP'' then 1.16
      else if c = ''CHF'' then 1.05 else if c = ''PLN'' then 0.24 else 1.0)"

definition fallbackRatesFromEur :: "string \<Rightarrow> real" where
  "fallbackRatesFromEur c =
     (if c = ''USD'' then 1.08 else if c = ''GBP'' then 0.86
      else if c = ''CHF'' then 0.95 else if c = ''PLN'' then 4.17 else 1.0)"

text \<open>
  \<^verbatim>\<open>getExchangeRateToEur\<close>. \<open>api\<close> is the exchange-rate endpoint, answering with
  \<^verbatim>\<open>data.rate\<close>; \<open>now\<close> is \<^verbatim>\<open>Date.now()\<close> at the cache check and \<open>later\<close> is
  \<^verbatim>\<open>Date.now()\<close> when the answer is stored.
\<close>

definition getExchangeRateToEur ::
    "(string \<times> string \<Rightarrow> real response) \<Rightarrow> nat \<Rightarrow> nat \<Rightarrow> string \<Rightarrow> CurrencyService
       \<Rightarrow> real \<times> CurrencyService" where
  "getExchangeRateToEur api now later fromCurrency svc =
     (if fromCurrency = ''EUR'' then (1.0, svc)
      else
        (let cacheKey = fromCurrency @ ''_EUR'';
             cached = exchangeRatesCache svc cacheKey;
             valid = (case cached of
                        None \<Rightarrow> False
                      | Some e \<Rightarrow> int now - int (timestamp e) < CACHE_DURATION)
         in if valid then (case cached of Some e \<Rightarrow> (rate e, svc) | None \<Rightarrow> (1.0, svc))
            else
              (let svc1 = svc\<lparr>rateRequests := rateRequests svc @ [(fromCurrency, ''EUR'')]\<rparr> in
               case api (fromCurrency, ''EUR'') of
                 Ok r \<Rightarrow>
                   (r, svc1\<lparr>exchangeRatesCache := (exchangeRatesCache svc1)
                              (cacheKey \<mapsto> \<lparr>rate = r, timestamp = later\<rparr>)\<rparr>)
               | Err _ \<Rightarrow> (fallbackRatesToEur fromCurrency, svc1))))"

text \<open>\<^verbatim>\<open>getExchangeRateFromEur\<close>, with the same parameters.\<close>

definition getExchangeRateFromEur ::
    "(string \<times> string \<Rightarrow> real response) \<Rightarrow> nat \<Rightarrow> nat \<Rightarrow> string \<Rightarrow> CurrencyService
       \<Rightarrow> real \<times> CurrencyService" where
  "getExchangeRateFromEur api now later toCurrency svc =
     (if toCurrency = ''EUR'' then (1.0, svc)
      else
        (let cacheKey = ''EUR_'' @ toCurrency;
             cached = exchangeRatesCache svc cacheKey;
             valid = (case cached of
                        None \<Rightarrow> False
                      | Some e \<Rightarrow> int now - int (timestamp e) < CACHE_DURATION)
         in if valid then (case cached of Some e \<Rightarrow> (rate e, svc) | None \<Rightarrow> (1.0, svc))
            else
              (let svc1 = svc\<lparr>rateRequests := rateRequests svc @ [(''EUR'', toCurrency)]\<rparr> in
               case api (''EUR'', toCurrency) of
                 Ok r \<Rightarrow>
                   (r, svc1\<lparr>exchangeRatesCache := (exchangeRatesCache svc1)
                              (cacheKey \<mapsto> \<lparr>rate = r, timestamp = later\<rparr>)\<rparr>)
               | Err _ \<Rightarrow> (fallbackRatesFromEur toCurrency, svc1))))"

section \<open>Authenticated request gateway (the axios instance with the refresh interceptor)\<close>

text \<open>
  The module keeps \<^verbatim>\<open>isRefreshing\<close> and \<^verbatim>\<open>refreshSubscribers\<close> as module variables and
  installs the interceptors on its own axios instance; a replay goes through the plain
  \<^verbatim>\<open>axios\<close> function, which has no interceptors.

  An axios request configuration, as far as the interceptor reads or writes it: the URL,
  the \<^verbatim>\<open>headers\<close> object (\<open>None\<close> when the configuration has none; otherwise the value
  of its \<^verbatim>\<open>Authorization\<close> entry, if set) and the \<^verbatim>\<open>_retry\<close> marker.
\<close>

record request =
  url :: string
  headers :: "string option option"
  retry :: bool

text \<open>
  What a promise handed back by the interceptor is rejected with: the axios error (its
  configuration and the status of its response, if any), the object built for a missing
  response, or whatever \<^verbatim>\<open>refreshToken()\<close> threw.
\<close>

datatype rejection =
    AxiosError request "nat option"
  | ConnectionFailed
  | RefreshThrew

text \<open>
  How \<^verbatim>\<open>await authStore.refreshToken()\<close> completes: with true, and then
  \<^verbatim>\<open>authStore.authToken\<close> is read; with false; or by throwing.
\<close>

datatype refresh_outcome =
    RefreshTrue "string option"
  | RefreshFalse
  | RefreshThrows

text \<open>What the module does to the outside, in the order it does it.\<close>

datatype effect =
    CallRefresh
  | Subscribe request
  | Invoke request string
  | Replay request
  | Logout
  | Rejected request rejection

text \<open>
  The module state: the two module variables, the handlers parked at
  \<^verbatim>\<open>await authStore.refreshToken()\<close> (each with its \<^verbatim>\<open>originalRequest\<close> and the status of
  the error it handles), and the effects so far. A queued callback is the closure the
  handler pushed; it is determined by the \<^verbatim>\<open>originalRequest\<close> it closes over.
\<close>

record gateway =
  isRefreshing :: bool
  refreshSubscribers :: "request list"
  suspended :: "(request \<times> nat option) list"
  effects :: "effect list"

text \<open>
  The closure pushed by \<^verbatim>\<open>subscribeTokenRefresh\<close>, called with a token: it sets the header
  when the token is not empty and the configuration has headers, then resolves the
  caller's promise with \<^verbatim>\<open>axios(originalRequest)\<close>.
\<close>

definition callback :: "request \<Rightarrow> string \<Rightarrow> effect list" where
  "callback originalRequest tok =
     [Invoke originalRequest tok,
      Replay (if tok \<noteq> [] \<and> headers originalRequest \<noteq> None
              then originalRequest\<lparr>headers := Some (Some (''Bearer '' @ tok))\<rparr>
              else originalRequest)]"

definition onTokenRefreshed :: "string \<Rightarrow> gateway \<Rightarrow> gateway" where
  "onTokenRefreshed newToken g =
     g\<lparr>effects := effects g @ concat (map (\<lambda>cb. callback cb newToken) (refreshSubscribers g)),
       refreshSubscribers := []\<rparr>"

text \<open>
  \<^verbatim>\<open>onRefreshError\<close>; the rejected promise it returns is dropped by both of its callers.
\<close>

definition onRefreshError :: "gateway \<Rightarrow> gateway" where
  "onRefreshError g =
     g\<lparr>effects := effects g @ concat (map (\<lambda>cb. callback cb []) (refreshSubscribers g)),
       refreshSubscribers := []\<rparr>"

text \<open>
  The error handler of the response interceptor, up to its \<^verbatim>\<open>await\<close>. \<open>config\<close> and
  \<open>status\<close> are \<^verbatim>\<open>error.config\<close> and \<^verbatim>\<open>error.response?.status\<close>.
\<close>

definition responseError :: "request \<Rightarrow> nat option \<Rightarrow> gateway \<Rightarrow> gateway" where
  "responseError config status g =
     (if status = Some 401 \<and> \<not> retry config then
        if isRefreshing g then
          g\<lparr>refreshSubscribers := refreshSubscribers g @ [config],
            effects := effects g @ [Subscribe config]\<rparr>
        else
          g\<lparr>isRefreshing := True,
            suspended := suspended g @ [(config\<lparr>retry := True\<rparr>, status)],
            effects := effects g @ [CallRefresh]\<rparr>
      else if status = None then
        g\<lparr>effects := effects g @ [Rejected config ConnectionFailed]\<rparr>
      else
        g\<lparr>effects := effects g @ [Rejected config (AxiosError config status)]\<rparr>)"

text \<open>The rest of the handler, run when \<^verbatim>\<open>refreshToken()\<close> has completed.\<close>

definition refreshSettled :: "refresh_outcome \<Rightarrow> request \<times> nat option \<Rightarrow> gateway \<Rightarrow> gateway" where
  "refreshSettled outcome parked g =
     (case parked of (originalRequest, status) \<Rightarrow>
        (case outcome of
           RefreshTrue authToken \<Rightarrow>
             (let newToken = (case authToken of None \<Rightarrow> [] | Some t \<Rightarrow> t);
                  g1 = onTokenRefreshed newToken g;
                  replayed = (if headers originalRequest \<noteq> None
                              then originalRequest\<lparr>headers := Some (Some (''Bearer '' @ newToken))\<rparr>
                              else originalRequest);
                  g2 = g1\<lparr>isRefreshing := False\<rparr>
              in g2\<lparr>effects := effects g2 @ [Replay replayed]\<rparr>)
         | RefreshFalse \<Rightarrow>
             (let g1 = g\<lparr>isRefreshing := False\<rparr>;
                  g2 = onRefreshError g1
              in g2\<lparr>effects := effects g2 @
                     [Logout, Rejected originalRequest (AxiosError originalRequest status)]\<rparr>)
         | RefreshThrows \<Rightarrow>
             (let g1 = g\<lparr>isRefreshing := False\<rparr>;
                  g2 = onRefreshError g1
              in g2\<lparr>effects := effects g2 @ [Logout, Rejected originalRequest RefreshThrew]\<rparr>)))"

text \<open>
  The module as an event system: a failed response reaches the interceptor, or the
  \<open>i\<close>-th parked refresh call completes.
\<close>

datatype gateway_event =
    ResponseError request "nat option"
  | RefreshSettles nat refresh_outcome

definition gateway_step :: "gateway \<Rightarrow> gateway_event \<Rightarrow> gateway" where
  "gateway_step g ev =
     (case ev of
        ResponseError config status \<Rightarrow> responseError config status g
      | RefreshSettles i outcome \<Rightarrow>
          if i < length (suspended g) then
            refreshSettled outcome (suspended g ! i)
              (g\<lparr>suspended := take i (suspended g) @ drop (Suc i) (suspended g)\<rparr>)
          else g)"

definition gateway_init :: gateway where
  "gateway_init = \<lparr>isRefreshing = False, refreshSubscribers = [], suspended = [], effects = []\<rparr>"

definition gateway_run :: "gateway_event list \<Rightarrow> gateway" where
  "gateway_run evs = foldl gateway_step gateway_init evs"

text \<open>Readings of the effects: the callbacks queued, the callbacks called, the refresh calls.\<close>

fun subscribed :: "effect list \<Rightarrow> request list" where
  "subscribed [] = []"
| "subscribed (Subscribe r # es) = r # subscribed es"
| "subscribed (_ # es) = subscribed es"

fun invoked :: "effect list \<Rightarrow> (request \<times> string) list" where
  "invoked [] = []"
| "invoked (Invoke r t # es) = (r, t) # invoked es"
| "invoked (_ # es) = invoked es"

text \<open>
  The callbacks that were called and went on to resolve their caller's promise with the
  replay of their request: a call directly followed by \<^verbatim>\<open>axios(originalRequest)\<close> for the
  request of that call, carrying the token handed over if there is one and the request has
  headers.
\<close>

fun resumed :: "effect list \<Rightarrow> (request \<times> string) list" where
  "resumed (Invoke w t # Replay r # es) =
     (if r = (if t \<noteq> [] \<and> headers w \<noteq> None
              then w\<lparr>headers := Some (Some (''Bearer '' @ t))\<rparr> else w)
      then (w, t) # resumed es else resumed es)"
| "resumed (_ # es) = resumed es"
| "resumed [] = []"

fun is_invoke :: "effect \<Rightarrow> bool" where
  "is_invoke (Invoke w t) = True"
| "is_invoke _ = False"

fun refreshCalls :: "effect list \<Rightarrow> nat" where
  "refreshCalls [] = 0"
| "refreshCalls (CallRefresh # es) = Suc (refreshCalls es)"
| "refreshCalls (_ # es) = refreshCalls es"

text \<open>The token handed to the queued callbacks when the refresh completes.\<close>

definition delivered_token :: "refresh_outcome \<Rightarrow> string" where
  "delivered_token outcome =
     (case outcome of
        RefreshTrue authToken \<Rightarrow> (case authToken of None \<Rightarrow> [] | Some t \<Rightarrow> t)
      | _ \<Rightarrow> [])"

text \<open>
  What holds of the module after every event: at most one handler is parked at the refresh
  call, one is parked exactly while the flag is set, the queue is empty while the flag is
  clear, a parked handler's request carries the marker, the callbacks queued so far are
  those called so far followed by those still in the queue, every call has gone on to
  replay its request, and no call is the last thing that happened.
\<close>

definition gateway_inv :: "gateway \<Rightarrow> bool" where
  "gateway_inv g \<longleftrightarrow>
     length (suspended g) \<le> 1 \<and>
     (isRefreshing g \<longleftrightarrow> suspended g \<noteq> []) \<and>
     (refreshSubscribers g \<noteq> [] \<longrightarrow> isRefreshing g) \<and>
     list_all (\<lambda>p. retry (fst p)) (suspended g) \<and>
     subscribed (effects g) = map fst (invoked (effects g)) @ refreshSubscribers g \<and>
     subscribed (effects g) = map fst (resumed (effects g)) @ refreshSubscribers g \<and>
     (effects g = [] \<or> \<not> is_invoke (last (effects g)))"

section \<open>Concrete inputs\<close>

text \<open>A plain stand-in for \<^verbatim>\<open>Intl.NumberFormat\<close>, used on concrete inputs only.\<close>

definition plainFormat :: "real \<Rightarrow> string \<Rightarrow> string" where
  "plainFormat x c = c"

definition acct1 :: Account where
  "acct1 = \<lparr>account_id = 1, accountNumber = ''NL01'', accountName = ''Main'', accountType = ''CHECKING'',
            balance = 100, currency = ''EUR'', dailyTransferLimit = 80, dailyWithdrawalLimit = 500,
            singleTransferLimit = 50, singleWithdrawalLimit = 500, transferUsedToday = 40,
            withdrawalUsedToday = 0\<rparr>"

definition form1 :: modal where
  "form1 = \<lparr>fromAccount = Some acct1, toAccount = ''NL02'', amount = Num 40, description = [],
            isProcessing = False, error = None, amountError = None, toAccountError = None,
            transferPreview = None, showExchangeInfo = False, isLoadingPreview = False,
            byEmployee = False, availableFromAccounts = [acct1]\<rparr>"


definition formZero :: modal where
  "formZero = form1\<lparr>amount := Num 0\<rparr>"

definition formNegative :: modal where
  "formNegative = form1\<lparr>amount := Num (- 5)\<rparr>"



definition lookupFound :: "string \<Rightarrow> unit response" where
  "lookupFound u = Ok ()"






definition user1 :: User where
  "user1 = \<lparr>user_id = 7, username = ''ann'', name = ''Ann'', email = ''ann@example.org'',
            role = ''CUSTOMER'', enabled = True\<rparr>"

definition stringifyUser :: "User \<Rightarrow> string" where
  "stringifyUser u = ''{\"username\":\"'' @ username u @ ''\"}''"

definition parseNothing :: "string \<Rightarrow> User option" where
  "parseNothing s = None"

definition loginResult :: authResult where
  "loginResult = \<lparr>result_token = ''tok'', result_refreshToken = ''ref'', result_user = user1,
                  expiresIn = 1\<rparr>"

text \<open>A store that logged in at clock reading 1000 for one second.\<close>

definition sessionLogged :: session where
  "sessionLogged = setSession stringifyUser 1000 loginResult (initialStore parseNothing Map.empty)"

text \<open>
  A store over a storage that holds an access token and a distant expiry and no refresh
  token.
\<close>

definition sessionTokenOnly :: session where
  "sessionTokenOnly =
     initialStore parseNothing [''token'' \<mapsto> ''tok'', ''token_expires_at'' \<mapsto> toString 3601000]"

definition validateOk :: "string \<Rightarrow> User response" where
  "validateOk t = Ok user1"

definition rateApi :: "string \<times> string \<Rightarrow> real response" where
  "rateApi q = Ok 0.9"

definition serviceUsd :: CurrencyService where
  "serviceUsd = \<lparr>exchangeRatesCache = [''USD_EUR'' \<mapsto> \<lparr>rate = 0.5, timestamp = 1000\<rparr>,
                                       ''EUR_USD'' \<mapsto> \<lparr>rate = 2, timestamp = 1000\<rparr>],
                 rateRequests = []\<rparr>"

definition reqA :: request where
  "reqA = \<lparr>url = ''/account/getall'', headers = Some (Some ''Bearer old''), retry = False\<rparr>"

definition reqB :: request where
  "reqB = \<lparr>url = ''/transaction/getall'', headers = Some (Some ''Bearer old''), retry = False\<rparr>"

definition reqC :: request where
  "reqC = \<lparr>url = ''/atm/deposit'', headers = Some (Some ''Bearer old''), retry = False\<rparr>"

definition refreshFailsRun :: "gateway_event list" where
  "refreshFailsRun =
     [ResponseError reqA (Some 401), ResponseError reqB (Some 401), RefreshSettles 0 RefreshFalse]"

definition threeFailRun :: "gateway_event list" where
  "threeFailRun =
     [ResponseError reqA (Some 401), ResponseError reqB (Some 401), ResponseError reqC (Some 401)]"

section \<open>Theorems\<close>

subsection \<open>Decimal strings\<close>

lemma of_char_digit_char: "d < 10 \<Longrightarrow> (of_char (digit_char d) :: nat) = 48 + d"
  unfolding digit_char_def by simp

lemma is_digit_digit_char: "d < 10 \<Longrightarrow> is_digit (digit_char d)"
  by (simp add: is_digit_def of_char_digit_char)

lemma nat_toString_digits: "list_all is_digit (nat_toString n)"
proof (induction n rule: nat_toString.induct)
  case (1 n)
  show ?case
  proof (cases "n < 10")
    case True
    then show ?thesis
      by (subst nat_toString.simps) (simp add: is_digit_digit_char)
  next
    case False
    with 1 have "list_all is_digit (nat_toString (n div 10))" by simp
    moreover have "is_digit (digit_char (n mod 10))" by (simp add: is_digit_digit_char)
    ultimately show ?thesis
      using False by (subst nat_toString.simps) simp
  qed
qed

lemma nat_toString_nonempty: "nat_toString n \<noteq> []"
  by (subst nat_toString.simps) simp

lemma digits_value_snoc:
  "digits_value (s @ [c]) = 10 * digits_value s + (of_char c - 48)"
  by (simp add: digits_value_def)

lemma digits_value_single: "digits_value [c] = of_char c - 48"
  by (simp add: digits_value_def)

lemma digits_value_nat_toString: "digits_value (nat_toString n) = n"
proof (induction n rule: nat_toString.induct)
  case (1 n)
  show ?case
  proof (cases "n < 10")
    case True
    then show ?thesis
      by (subst nat_toString.simps) (simp add: digits_value_single of_char_digit_char)
  next
    case False
    with 1 have ih: "digits_value (nat_toString (n div 10)) = n div 10" by simp
    have "nat_toString n = nat_toString (n div 10) @ [digit_char (n mod 10)]"
      using False by (subst nat_toString.simps) simp
    then have "digits_value (nat_toString n) = 10 * (n div 10) + n mod 10"
      by (simp add: digits_value_snoc ih of_char_digit_char)
    then show ?thesis by simp
  qed
qed

lemma minus_not_digit: "\<not> is_digit CHR ''-''"
  by (simp add: is_digit_def)

text \<open>Reading back what \<open>toString\<close> wrote gives the number written.\<close>

lemma js_Number_toString: "js_Number (toString n) = Finite n"
proof (cases "n < 0")
  case True
  then show ?thesis
    by (simp add: js_Number_def toString_def nat_toString_digits nat_toString_nonempty
                  digits_value_nat_toString minus_not_digit)
next
  case False
  then show ?thesis
    by (simp add: js_Number_def toString_def nat_toString_digits nat_toString_nonempty
                  digits_value_nat_toString)
qed

lemma toString_nonempty: "toString n \<noteq> []"
  by (simp add: toString_def nat_toString_nonempty)

subsection \<open>Addition of doubles\<close>

lemma log2_nat_bounds: "0 < n \<Longrightarrow> 2 ^ log2_nat n \<le> n \<and> n < 2 ^ Suc (log2_nat n)"
proof (induction n rule: log2_nat.induct)
  case (1 n)
  show ?case
  proof (cases "n < 2")
    case True
    with 1(2) have "n = 1" by simp
    then show ?thesis by (simp add: log2_nat.simps)
  next
    case False
    then have pos: "0 < n div 2" by simp
    from 1(1) [OF False pos]
    have ih: "2 ^ log2_nat (n div 2) \<le> n div 2" "n div 2 < 2 ^ Suc (log2_nat (n div 2))"
      by simp_all
    have eq: "log2_nat n = Suc (log2_nat (n div 2))"
      using False by (subst log2_nat.simps) simp
    from ih have "2 * 2 ^ log2_nat (n div 2) \<le> n" "n < 2 * 2 ^ Suc (log2_nat (n div 2))"
      by linarith+
    then show ?thesis by (simp add: eq)
  qed
qed

text \<open>\<open>binade\<close> finds the power of two at or below a positive number.\<close>

lemma binade_bounds:
  assumes "0 < z"
  shows "2 powi binade z \<le> z \<and> z < 2 powi (binade z + 1)"
proof (cases "1 \<le> z")
  case True
  define n where "n = nat \<lfloor>z\<rfloor>"
  from True have n: "0 < n" "real n \<le> z" "z < real n + 1"
    by (simp_all add: n_def)
  from log2_nat_bounds [OF n(1)]
  have b: "(2::nat) ^ log2_nat n \<le> n" "n < 2 ^ Suc (log2_nat n)" by simp_all
  from b(1) have "(2::real) ^ log2_nat n \<le> real n"
    by (metis of_nat_le_iff of_nat_numeral of_nat_power)
  moreover from b(2) have "real n + 1 \<le> 2 ^ Suc (log2_nat n)"
    by (metis Suc_leI of_nat_Suc of_nat_le_iff of_nat_numeral of_nat_power add.commute)
  moreover have "binade z = int (log2_nat n)"
    using True by (simp add: binade_def n_def)
  moreover have "(2::real) powi (int (log2_nat n)) = 2 ^ log2_nat n"
                "(2::real) powi (int (log2_nat n) + 1) = 2 ^ Suc (log2_nat n)"
    by (simp_all add: power_int_add)
  ultimately show ?thesis
    using n by (metis order_trans order_less_le_trans)
next
  case False
  with assms have w: "1 < 1 / z" by simp
  define n where "n = nat (\<lceil>1 / z\<rceil> - 1)"
  from w have n: "0 < n" "real n < 1 / z" "1 / z \<le> real n + 1"
    by (simp_all add: n_def) linarith+
  from log2_nat_bounds [OF n(1)]
  have b: "(2::nat) ^ log2_nat n \<le> n" "n < 2 ^ Suc (log2_nat n)" by simp_all
  from b(1) have lo: "(2::real) ^ log2_nat n \<le> real n"
    by (metis of_nat_le_iff of_nat_numeral of_nat_power)
  from b(2) have hi: "real n + 1 \<le> 2 ^ Suc (log2_nat n)"
    by (metis Suc_leI of_nat_Suc of_nat_le_iff of_nat_numeral of_nat_power add.commute)
  from lo n(2) have "(2::real) ^ log2_nat n < 1 / z" by linarith
  with assms have up: "z < 1 / 2 ^ log2_nat n"
    by (simp add: field_simps)
  from hi n(3) have "1 / z \<le> 2 ^ Suc (log2_nat n)" by linarith
  with assms have down: "1 / 2 ^ Suc (log2_nat n) \<le> z"
    by (simp add: field_simps)
  have e: "binade z = - int (Suc (log2_nat n))"
    using False by (simp add: binade_def n_def)
  have p1: "(2::real) powi (- int (Suc (log2_nat n))) = 1 / 2 ^ Suc (log2_nat n)"
    by (metis power_int_minus power_int_of_nat inverse_eq_divide)
  have "- int (Suc (log2_nat n)) + 1 = - int (log2_nat n)" by simp
  then have p2: "(2::real) powi (- int (Suc (log2_nat n)) + 1) = 1 / 2 ^ log2_nat n"
    by (metis power_int_minus power_int_of_nat inverse_eq_divide)
  from up down show ?thesis
    unfolding e p1 p2 by simp
qed

lemma round_half_even_near: "\<bar>of_int (round_half_even x) - x\<bar> \<le> 1 / 2"
proof -
  have "of_int \<lfloor>x\<rfloor> \<le> x" "x < of_int \<lfloor>x\<rfloor> + 1" by linarith+
  then show ?thesis
    by (auto simp: round_half_even_def Let_def)
qed

lemma round_half_even_int: "round_half_even (of_int k) = k"
  by (simp add: round_half_even_def Let_def)

text \<open>The rounded value is within half a unit in the last place of the exact one.\<close>

lemma round53_near:
  "\<bar>round53 z - z\<bar> \<le> 2 powi (binade \<bar>z\<bar> - 52) / 2"
proof (cases "z = 0")
  case True
  then show ?thesis by (simp add: round53_def)
next
  case False
  define u :: real where "u = 2 powi (binade \<bar>z\<bar> - 52)"
  have u: "0 < u" by (simp add: u_def)
  have "round53 z - z = u * (of_int (round_half_even (z / u)) - z / u)"
    using False u by (simp add: round53_def u_def [symmetric] Let_def algebra_simps)
  then have "\<bar>round53 z - z\<bar> = u * \<bar>of_int (round_half_even (z / u)) - z / u\<bar>"
    using u by (simp add: abs_mult)
  also have "\<dots> \<le> u * (1 / 2)"
    using u round_half_even_near [of "z / u"] by (intro mult_left_mono) simp_all
  finally show ?thesis by (simp add: u_def)
qed

text \<open>A multiple of the unit in the last place is left as it is.\<close>

lemma round53_exact:
  assumes "z = 2 powi (binade \<bar>z\<bar> - 52) * of_int k"
  shows "round53 z = z"
proof (cases "z = 0")
  case True
  then show ?thesis by (simp add: round53_def)
next
  case False
  define u :: real where "u = 2 powi (binade \<bar>z\<bar> - 52)"
  have u: "u \<noteq> 0" by (simp add: u_def)
  from assms have zk: "z = u * of_int k" by (simp add: u_def)
  then have "z / u = of_int k" using u by simp
  then have q: "round_half_even (z / u) = k" by (simp add: round_half_even_int)
  have "round53 z = u * of_int (round_half_even (z / u))"
    using False by (simp add: round53_def u_def Let_def)
  with q zk show ?thesis by simp
qed

lemmas js_add_eval =
  js_add_def round53_def binade_def round_half_even_def log2_nat.simps Let_def

text \<open>
  The double nearest to 0.9 plus the double nearest to 0.1 is \<open>1 + 2\<^sup>-\<^sup>5\<^sup>5\<close> exactly and 1
  as a double.
\<close>

lemma tenths_sum:
  "(8106479329266893 / 2 ^ 53 + 7205759403792794 / 2 ^ 56 :: real) = 1 + 1 / 2 ^ 55"
  "js_add (8106479329266893 / 2 ^ 53) (7205759403792794 / 2 ^ 56) = 1"
  by (simp_all add: js_add_eval)

subsection \<open>Amount validation\<close>




text \<open>
  C10. When the amount is null, empty or 0, or no source account is selected,
  \<^verbatim>\<open>validateAmount\<close> only resets the amount error; the message "Amount must be greater
  than zero" is left only for a strictly negative amount; and a valid form has a numeric
  amount above 0 and no amount error, so in the first case the form is invalid and
  \<^verbatim>\<open>submitTransfer\<close> sends nothing.
\<close>

theorem validateAmount_silent_on_empty:
  "(amount m = Null \<or> amount m = Empty \<or> amount m = Num 0 \<or> fromAccount m = None \<longrightarrow>
      validateAmount fmt m = m\<lparr>amountError := None\<rparr> \<and>
      \<not> isFormValid (validateAmount fmt m) \<and>
      snd (submitTransfer_start (validateAmount fmt m)) = None) \<and>
   (amountError (validateAmount fmt m) = Some ''Amount must be greater than zero'' \<longrightarrow>
      (\<exists>a. amount m = Num a \<and> a < 0) \<and> fromAccount m \<noteq> None) \<and>
   (isFormValid k \<longrightarrow>
      (\<exists>a. amount k = Num a \<and> 0 < a) \<and> \<not> truthy_str (amountError k) \<and>
      fromAccount k \<noteq> None)"
proof -
  have silent: "amount m = Null \<or> amount m = Empty \<or> amount m = Num 0 \<or> fromAccount m = None \<longrightarrow>
      validateAmount fmt m = m\<lparr>amountError := None\<rparr>"
    by (auto simp: validateAmount_def Let_def split: option.splits amount_field.splits)
  have blocked: "amount m = Null \<or> amount m = Empty \<or> amount m = Num 0 \<or> fromAccount m = None \<longrightarrow>
      \<not> isFormValid (m\<lparr>amountError := None\<rparr>)"
    by (auto simp: isFormValid_def)
  have nosend: "\<not> isFormValid x \<Longrightarrow> snd (submitTransfer_start x) = None" for x
    by (simp add: submitTransfer_start_def)
  have negative: "amountError (validateAmount fmt m) = Some ''Amount must be greater than zero'' \<longrightarrow>
      (\<exists>a. amount m = Num a \<and> a < 0) \<and> fromAccount m \<noteq> None"
    by (auto simp: validateAmount_def Let_def split: option.splits amount_field.splits if_splits)
  have valid: "isFormValid k \<longrightarrow>
      (\<exists>a. amount k = Num a \<and> 0 < a) \<and> \<not> truthy_str (amountError k) \<and> fromAccount k \<noteq> None"
    by (auto simp: isFormValid_def split: amount_field.splits)
  from silent blocked nosend negative valid show ?thesis by metis
qed

theorem validateAmount_silent_on_empty_witness:
  "validateAmount plainFormat formZero = formZero\<lparr>amountError := None\<rparr> \<and>
   \<not> isFormValid (validateAmount plainFormat formZero) \<and>
   snd (submitTransfer_start (validateAmount plainFormat formZero)) = None \<and>
   (\<exists>a. amount formNegative = Num a \<and> a < 0) \<and>
   (\<exists>a. amount form1 = Num a \<and> 0 < a)"
proof -
  have zero: "amount formZero = Num 0"
    by (simp add: formZero_def)
  have neg: "amountError (validateAmount plainFormat formNegative) =
     Some ''Amount must be greater than zero''"
    by (simp add: validateAmount_def formNegative_def form1_def acct1_def)
  have ok: "isFormValid form1"
    by (simp add: isFormValid_def form1_def)
  show ?thesis
    using validateAmount_silent_on_empty [of formZero plainFormat form1]
          validateAmount_silent_on_empty [of formNegative plainFormat form1]
          zero neg ok
    by blast
qed

subsection \<open>Destination validation\<close>

text \<open>
  C9. Whenever a destination account number has been entered and it equals the number of
  the selected source account, \<^verbatim>\<open>validateToAccount\<close> leaves the message "Cannot transfer
  to the same account" and returns before the lookup: no request is issued, whatever the
  endpoint would answer. (An empty field holds no account number; the function returns on
  it before this check.)
\<close>

theorem validateToAccount_same:
  assumes "fromAccount m = Some src" and "toAccount m = accountNumber src"
      and "toAccount m \<noteq> []"
  shows "validateToAccount api m =
           (m\<lparr>toAccountError := Some ''Cannot transfer to the same account''\<rparr>, [])"
  using assms by (simp add: validateToAccount_def validateToAccount_start_def)

theorem validateToAccount_same_witness:
  "validateToAccount lookupFound (form1\<lparr>toAccount := ''NL01''\<rparr>) =
     (form1\<lparr>toAccount := ''NL01'',
            toAccountError := Some ''Cannot transfer to the same account''\<rparr>, [])"
  using validateToAccount_same [of "form1\<lparr>toAccount := ''NL01''\<rparr>" acct1 lookupFound]
  by (simp add: form1_def acct1_def)

subsection \<open>Transfer preview\<close>




subsection \<open>Session state\<close>

lemma isLoggedIn_body_iff:
  "isLoggedIn_body s now \<longleftrightarrow>
     truthy_str (token s) \<and> (\<exists>e. expiresAt s = Some (Finite e) \<and> e > int now)"
proof (cases "expiresAt s")
  case None
  then show ?thesis by (simp add: isLoggedIn_body_def)
next
  case (Some x)
  then show ?thesis by (cases x) (auto simp: isLoggedIn_body_def)
qed

lemma setSession_fields:
  "token (auth (setSession stringify t0 r se)) = Some (result_token r)"
  "expiresAt (auth (setSession stringify t0 r se)) = Some (Finite (int t0 + expiresIn r * 1000))"
  "refreshTokenKey (setSession stringify t0 r se) = Assigned (Some (result_refreshToken r))"
  by (simp_all add: setSession_def write_state_def Let_def)

lemma rehydrated_fields:
  "token (initialState parse (localStorage (setSession stringify t0 r se))) =
     (if result_token r = [] then None else Some (result_token r))"
  "expiresAt (initialState parse (localStorage (setSession stringify t0 r se))) =
     Some (Finite (int t0 + expiresIn r * 1000))"
  by (simp_all add: setSession_def Let_def initialState_def or_null_def toString_nonempty
                    js_Number_toString)

text \<open>
  What does hold of the round trip: the body of the getter, evaluated at one clock reading
  on the state \<^verbatim>\<open>setSession\<close> wrote and on the state a fresh store reads back, gives the
  same answer, and that is what a fresh store answers when first asked.
\<close>

lemma getter_body_roundtrip:
  "isLoggedIn_body (initialState parse (localStorage (setSession stringify t0 r se))) now =
     isLoggedIn_body (auth (setSession stringify t0 r se)) now"
  "fst (isLoggedIn now (initialStore parse ls)) = isLoggedIn_body (initialState parse ls) now"
proof -
  show "isLoggedIn_body (initialState parse (localStorage (setSession stringify t0 r se))) now =
     isLoggedIn_body (auth (setSession stringify t0 r se)) now"
    by (simp add: isLoggedIn_body_iff setSession_fields rehydrated_fields)
  show "fst (isLoggedIn now (initialStore parse ls)) = isLoggedIn_body (initialState parse ls) now"
    by (simp add: isLoggedIn_def initialStore_def Let_def)
qed

lemma sessionLogged_cache: "isLoggedInCache sessionLogged = Dirty"
  by (simp add: sessionLogged_def setSession_def write_state_def initialStore_def Let_def)

text \<open>
  C6, evaluated where it fails. A store logs in at clock reading 1000 for one second, so
  the stored expiry is 2000. Asked at 1500 it answers true. Asked again at 2000, when the
  expiry equals the current time, and at 5000, it still answers true: nothing was written
  to the token or the expiry in between, so the getter is not evaluated again. A fresh
  store over the same storage, asked at 2000, answers false.
\<close>

theorem isLoggedIn_kept_after_expiry:
  "expiresAt (auth sessionLogged) = Some (Finite 2000) \<and>
   fst (isLoggedIn 1500 sessionLogged) \<and>
   fst (isLoggedIn 2000 (snd (isLoggedIn 1500 sessionLogged))) \<and>
   fst (isLoggedIn 5000 (snd (isLoggedIn 2000 (snd (isLoggedIn 1500 sessionLogged))))) \<and>
   \<not> isLoggedIn_body (auth sessionLogged) 2000 \<and>
   \<not> fst (isLoggedIn 2000 (initialStore parseNothing (localStorage sessionLogged)))"
proof -
  have fields: "token (auth sessionLogged) = Some ''tok''"
               "expiresAt (auth sessionLogged) = Some (Finite 2000)"
    by (simp_all add: sessionLogged_def setSession_fields loginResult_def)
  have first: "isLoggedIn 1500 sessionLogged =
                 (True, sessionLogged\<lparr>isLoggedInCache := Cached True True\<rparr>)"
    by (simp add: isLoggedIn_def sessionLogged_cache isLoggedIn_body_iff fields)
  have kept: "isLoggedIn t (sessionLogged\<lparr>isLoggedInCache := Cached True True\<rparr>) =
                 (True, sessionLogged\<lparr>isLoggedInCache := Cached True True\<rparr>)" for t
    by (simp add: isLoggedIn_def)
  have body: "\<not> isLoggedIn_body (auth sessionLogged) 2000"
    by (simp add: isLoggedIn_body_iff fields)
  have fresh: "\<not> fst (isLoggedIn 2000 (initialStore parseNothing (localStorage sessionLogged)))"
    unfolding sessionLogged_def getter_body_roundtrip
    by (simp add: isLoggedIn_body_iff setSession_fields loginResult_def)
  from fields first kept body fresh show ?thesis by simp
qed

theorem isLoggedIn_kept_after_expiry_witness:
  "fst (isLoggedIn 2000 (snd (isLoggedIn 1500 sessionLogged))) \<noteq>
   fst (isLoggedIn 2000 (initialStore parseNothing (localStorage sessionLogged)))"
  using isLoggedIn_kept_after_expiry by simp

text \<open>
  C7, evaluated where it fails. A fresh store over a storage with an access token, a
  distant expiry and no refresh token holds no refresh token in its state; its
  \<^verbatim>\<open>refreshToken()\<close> does not answer false at once but calls the validate endpoint and
  answers true, because \<^verbatim>\<open>this.refreshToken\<close> is the action itself. And on a store that
  has run \<^verbatim>\<open>setSession\<close>, whose key now holds the refresh token string, the call throws.
\<close>

theorem refreshToken_key_is_action:
  "refreshToken (auth sessionTokenOnly) = None \<and>
   fst (refreshTokenAction validateOk 2000 sessionTokenOnly) = Returned True \<and>
   requests (snd (refreshTokenAction validateOk 2000 sessionTokenOnly)) = [GetValidate ''tok''] \<and>
   refreshTokenKey sessionLogged = Assigned (Some ''ref'') \<and>
   refreshTokenAction validateOk 1500 sessionLogged = (Thrown, sessionLogged)"
proof -
  have st: "auth sessionTokenOnly =
      \<lparr>token = Some ''tok'', refreshToken = None, user = None,
       expiresAt = Some (Finite 3601000), isAuthenticated = False\<rparr>"
    by (simp add: sessionTokenOnly_def initialStore_def initialState_def or_null_def
                  safeJsonParse_def toString_nonempty js_Number_toString)
  have rest: "refreshTokenKey sessionTokenOnly = TheAction"
             "isLoggedInCache sessionTokenOnly = Dirty"
             "requests sessionTokenOnly = []"
    by (simp_all add: sessionTokenOnly_def initialStore_def)
  have read: "isLoggedIn 2000 sessionTokenOnly =
      (True, sessionTokenOnly\<lparr>isLoggedInCache := Cached True True\<rparr>)"
    by (simp add: isLoggedIn_def rest isLoggedIn_body_iff st)
  have val: "fst (validateToken validateOk 2000 sessionTokenOnly) = Some user1"
            "requests (snd (validateToken validateOk 2000 sessionTokenOnly)) = [GetValidate ''tok'']"
    by (simp_all add: validateToken_def read st rest validateOk_def write_state_def Let_def)
  obtain x where v: "validateToken validateOk 2000 sessionTokenOnly = (Some user1, x)"
    using val(1) by (cases "validateToken validateOk 2000 sessionTokenOnly") simp
  with val(2) have x: "requests x = [GetValidate ''tok'']" by simp
  have call: "fst (refreshTokenAction validateOk 2000 sessionTokenOnly) = Returned True"
             "requests (snd (refreshTokenAction validateOk 2000 sessionTokenOnly)) =
                [GetValidate ''tok'']"
    by (simp_all add: refreshTokenAction_def refreshToken_with_def rest v x)
  have key: "refreshTokenKey sessionLogged = Assigned (Some ''ref'')"
    by (simp add: sessionLogged_def setSession_fields loginResult_def)
  then have thrown: "refreshTokenAction validateOk 1500 sessionLogged = (Thrown, sessionLogged)"
    by (simp add: refreshTokenAction_def)
  from st call key thrown show ?thesis by simp
qed

theorem refreshToken_key_is_action_witness:
  "fst (refreshTokenAction validateOk 2000 sessionTokenOnly) \<noteq> Returned False \<and>
   fst (refreshTokenAction validateOk 1500 sessionLogged) = Thrown"
  using refreshToken_key_is_action by simp

subsection \<open>Rate cache\<close>

lemma toEur_cached:
  assumes "c \<noteq> ''EUR''" and "exchangeRatesCache svc (c @ ''_EUR'') = Some e"
      and "int now - int (timestamp e) < CACHE_DURATION"
  shows "getExchangeRateToEur api now later c svc = (rate e, svc)"
  using assms by (simp add: getExchangeRateToEur_def Let_def)

lemma toEur_refetch:
  assumes "c \<noteq> ''EUR''"
      and "exchangeRatesCache svc (c @ ''_EUR'') = None \<or>
           (\<exists>e. exchangeRatesCache svc (c @ ''_EUR'') = Some e \<and>
                CACHE_DURATION \<le> int now - int (timestamp e))"
  shows "rateRequests (snd (getExchangeRateToEur api now later c svc)) =
           rateRequests svc @ [(c, ''EUR'')] \<and>
         (\<forall>r. api (c, ''EUR'') = Ok r \<longrightarrow>
            fst (getExchangeRateToEur api now later c svc) = r \<and>
            exchangeRatesCache (snd (getExchangeRateToEur api now later c svc)) (c @ ''_EUR'') =
              Some \<lparr>rate = r, timestamp = later\<rparr>)"
  using assms
  by (cases "api (c, ''EUR'')") (auto simp: getExchangeRateToEur_def Let_def)

lemma fromEur_cached:
  assumes "c \<noteq> ''EUR''" and "exchangeRatesCache svc (''EUR_'' @ c) = Some e"
      and "int now - int (timestamp e) < CACHE_DURATION"
  shows "getExchangeRateFromEur api now later c svc = (rate e, svc)"
  using assms by (simp add: getExchangeRateFromEur_def Let_def)

lemma fromEur_refetch:
  assumes "c \<noteq> ''EUR''"
      and "exchangeRatesCache svc (''EUR_'' @ c) = None \<or>
           (\<exists>e. exchangeRatesCache svc (''EUR_'' @ c) = Some e \<and>
                CACHE_DURATION \<le> int now - int (timestamp e))"
  shows "rateRequests (snd (getExchangeRateFromEur api now later c svc)) =
           rateRequests svc @ [(''EUR'', c)] \<and>
         (\<forall>r. api (''EUR'', c) = Ok r \<longrightarrow>
            fst (getExchangeRateFromEur api now later c svc) = r \<and>
            exchangeRatesCache (snd (getExchangeRateFromEur api now later c svc)) (''EUR_'' @ c) =
              Some \<lparr>rate = r, timestamp = later\<rparr>)"
  using assms
  by (cases "api (''EUR'', c)") (auto simp: getExchangeRateFromEur_def Let_def)

text \<open>
  C8. Both lookups answer 1 for EUR and leave the service as it was, so no call is made.
  For another currency, when the cache holds an entry for the pair stored less than
  300000 ms before the lookup, the entry's rate is answered and the service is as it was,
  so no call is made; when the entry is 300000 ms old or older, or there is none, exactly
  one call for the pair is made, and when it answers with a rate that rate is returned and
  stored under the pair with the clock reading of the moment of storing.
\<close>

theorem rate_cache_five_minutes:
  "getExchangeRateToEur api now later ''EUR'' svc = (1, svc) \<and>
   getExchangeRateFromEur api now later ''EUR'' svc = (1, svc) \<and>
   (c \<noteq> ''EUR'' \<longrightarrow>
      (\<forall>e. exchangeRatesCache svc (c @ ''_EUR'') = Some e \<and>
            int now - int (timestamp e) < 5 * 60 * 1000 \<longrightarrow>
            getExchangeRateToEur api now later c svc = (rate e, svc)) \<and>
      (\<forall>e. exchangeRatesCache svc (''EUR_'' @ c) = Some e \<and>
            int now - int (timestamp e) < 5 * 60 * 1000 \<longrightarrow>
            getExchangeRateFromEur api now later c svc = (rate e, svc)) \<and>
      (exchangeRatesCache svc (c @ ''_EUR'') = None \<or>
       (\<exists>e. exchangeRatesCache svc (c @ ''_EUR'') = Some e \<and>
            5 * 60 * 1000 \<le> int now - int (timestamp e)) \<longrightarrow>
         rateRequests (snd (getExchangeRateToEur api now later c svc)) =
           rateRequests svc @ [(c, ''EUR'')] \<and>
         (\<forall>r. api (c, ''EUR'') = Ok r \<longrightarrow>
            fst (getExchangeRateToEur api now later c svc) = r \<and>
            exchangeRatesCache (snd (getExchangeRateToEur api now later c svc)) (c @ ''_EUR'') =
              Some \<lparr>rate = r, timestamp = later\<rparr>)) \<and>
      (exchangeRatesCache svc (''EUR_'' @ c) = None \<or>
       (\<exists>e. exchangeRatesCache svc (''EUR_'' @ c) = Some e \<and>
            5 * 60 * 1000 \<le> int now - int (timestamp e)) \<longrightarrow>
         rateRequests (snd (getExchangeRateFromEur api now later c svc)) =
           rateRequests svc @ [(''EUR'', c)] \<and>
         (\<forall>r. api (''EUR'', c) = Ok r \<longrightarrow>
            fst (getExchangeRateFromEur api now later c svc) = r \<and>
            exchangeRatesCache (snd (getExchangeRateFromEur api now later c svc)) (''EUR_'' @ c) =
              Some \<lparr>rate = r, timestamp = later\<rparr>)))"
proof -
  have d: "CACHE_DURATION = 5 * 60 * 1000"
    by (simp add: CACHE_DURATION_def)
  have eur: "getExchangeRateToEur api now later ''EUR'' svc = (1, svc)"
            "getExchangeRateFromEur api now later ''EUR'' svc = (1, svc)"
    by (simp_all add: getExchangeRateToEur_def getExchangeRateFromEur_def)
  show ?thesis
    using eur toEur_cached [of c svc _ now api later] fromEur_cached [of c svc _ now api later]
          toEur_refetch [of c svc now api later] fromEur_refetch [of c svc now api later]
    unfolding d by blast
qed

theorem rate_cache_five_minutes_witness:
  "getExchangeRateToEur rateApi 300999 301005 ''USD'' serviceUsd = (0.5, serviceUsd) \<and>
   rateRequests (snd (getExchangeRateToEur rateApi 301000 301005 ''USD'' serviceUsd)) =
     [(''USD'', ''EUR'')] \<and>
   exchangeRatesCache (snd (getExchangeRateToEur rateApi 301000 301005 ''USD'' serviceUsd))
     ''USD_EUR'' = Some \<lparr>rate = 0.9, timestamp = 301005\<rparr> \<and>
   getExchangeRateFromEur rateApi 300999 301005 ''USD'' serviceUsd = (2, serviceUsd) \<and>
   rateRequests (snd (getExchangeRateFromEur rateApi 301000 301005 ''USD'' serviceUsd)) =
     [(''EUR'', ''USD'')]"
proof -
  have e1: "exchangeRatesCache serviceUsd (''USD'' @ ''_EUR'') = Some \<lparr>rate = 0.5, timestamp = 1000\<rparr>"
    by (simp add: serviceUsd_def)
  have e2: "exchangeRatesCache serviceUsd (''EUR_'' @ ''USD'') = Some \<lparr>rate = 2, timestamp = 1000\<rparr>"
    by (simp add: serviceUsd_def)
  have r0: "rateRequests serviceUsd = []"
    by (simp add: serviceUsd_def)
  have a: "rateApi (''USD'', ''EUR'') = Ok 0.9"
    by (simp add: rateApi_def)
  have ne: "''USD'' \<noteq> ''EUR''" by simp
  have fresh: "int 300999 - int (timestamp \<lparr>rate = 0.5, timestamp = 1000\<rparr>) < 5 * 60 * 1000"
              "int 300999 - int (timestamp \<lparr>rate = 2 :: real, timestamp = 1000\<rparr>) < 5 * 60 * 1000"
    by simp_all
  have stale: "5 * 60 * 1000 \<le> int 301000 - int (timestamp \<lparr>rate = 0.5, timestamp = 1000\<rparr>)"
              "5 * 60 * 1000 \<le> int 301000 - int (timestamp \<lparr>rate = 2 :: real, timestamp = 1000\<rparr>)"
    by simp_all
  from rate_cache_five_minutes [of rateApi 300999 301005 serviceUsd "''USD''"] ne e1 e2 fresh
  have hit: "getExchangeRateToEur rateApi 300999 301005 ''USD'' serviceUsd = (0.5, serviceUsd)"
            "getExchangeRateFromEur rateApi 300999 301005 ''USD'' serviceUsd = (2, serviceUsd)"
    by auto
  from rate_cache_five_minutes [of rateApi 301000 301005 serviceUsd "''USD''"] ne e1 e2 stale a r0
  have miss: "rateRequests (snd (getExchangeRateToEur rateApi 301000 301005 ''USD'' serviceUsd)) =
       [(''USD'', ''EUR'')]"
     "exchangeRatesCache (snd (getExchangeRateToEur rateApi 301000 301005 ''USD'' serviceUsd))
        ''USD_EUR'' = Some \<lparr>rate = 0.9, timestamp = 301005\<rparr>"
     "rateRequests (snd (getExchangeRateFromEur rateApi 301000 301005 ''USD'' serviceUsd)) =
       [(''EUR'', ''USD'')]"
    by auto
  from hit miss show ?thesis by simp
qed

subsection \<open>Authenticated request gateway\<close>

lemma subscribed_append: "subscribed (xs @ ys) = subscribed xs @ subscribed ys"
  by (induction xs rule: subscribed.induct) simp_all

lemma invoked_append: "invoked (xs @ ys) = invoked xs @ invoked ys"
  by (induction xs rule: invoked.induct) simp_all

lemma refreshCalls_append: "refreshCalls (xs @ ys) = refreshCalls xs + refreshCalls ys"
  by (induction xs rule: refreshCalls.induct) simp_all

text \<open>
  \<open>resumed\<close> reads a call together with the replay that follows it, so it distributes
  over a split of the effects only where the split does not fall right after a call.
\<close>

lemma resumed_skip: "\<not> is_invoke e \<Longrightarrow> resumed (e # es) = resumed es"
  by (cases e) simp_all

lemma resumed_append:
  assumes "xs = [] \<or> \<not> is_invoke (last xs)"
  shows "resumed (xs @ ys) = resumed xs @ resumed ys"
  using assms
proof (induction xs rule: resumed.induct)
  case (1 w t r es)
  then show ?case by (cases "es = []") simp_all
qed (auto simp: resumed_skip split: if_splits)

lemma subscribed_callbacks: "subscribed (concat (map (\<lambda>cb. callback cb t) ws)) = []"
  by (induction ws) (simp_all add: callback_def)

lemma refreshCalls_callbacks: "refreshCalls (concat (map (\<lambda>cb. callback cb t) ws)) = 0"
  by (induction ws) (simp_all add: callback_def)

lemma invoked_callbacks:
  "invoked (concat (map (\<lambda>cb. callback cb t) ws)) = map (\<lambda>w. (w, t)) ws"
  by (induction ws) (simp_all add: callback_def)

lemma resumed_callbacks:
  "resumed (concat (map (\<lambda>cb. callback cb t) ws) @ ys) = map (\<lambda>w. (w, t)) ws @ resumed ys"
  by (induction ws) (simp_all add: callback_def)

lemma callbacks_spelled_out:
  "concat (map (\<lambda>cb. callback cb t) ws) =
     concat (map (\<lambda>w. [Invoke w t,
                         Replay (if t \<noteq> [] \<and> headers w \<noteq> None
                                 then w\<lparr>headers := Some (Some (''Bearer '' @ t))\<rparr> else w)]) ws)"
  by (induction ws) (simp_all add: callback_def)

lemma map_fst_pair: "map fst (map (\<lambda>w. (w, t)) ws) = ws"
  by (induction ws) simp_all

text \<open>What the drain does, for each way the refresh can complete.\<close>

lemma refreshSettled_queue:
  "refreshSubscribers (refreshSettled outcome parked g) = [] \<and>
   \<not> isRefreshing (refreshSettled outcome parked g) \<and>
   suspended (refreshSettled outcome parked g) = suspended g"
  by (cases parked; cases outcome)
     (simp_all add: refreshSettled_def onTokenRefreshed_def onRefreshError_def Let_def)

lemma refreshSettled_effects:
  "effects (refreshSettled outcome (originalRequest, status) g) =
     effects g @
     concat (map (\<lambda>cb. callback cb (delivered_token outcome)) (refreshSubscribers g)) @
     (case outcome of
        RefreshTrue authToken \<Rightarrow>
          [Replay (if headers originalRequest \<noteq> None
                   then originalRequest\<lparr>headers :=
                          Some (Some (''Bearer '' @ delivered_token outcome))\<rparr>
                   else originalRequest)]
      | RefreshFalse \<Rightarrow>
          [Logout, Rejected originalRequest (AxiosError originalRequest status)]
      | RefreshThrows \<Rightarrow> [Logout, Rejected originalRequest RefreshThrew])"
  by (cases outcome)
     (simp_all add: refreshSettled_def onTokenRefreshed_def onRefreshError_def Let_def
                    delivered_token_def)

lemma refreshSettled_invoked:
  "invoked (effects (refreshSettled outcome parked g)) =
     invoked (effects g) @ map (\<lambda>w. (w, delivered_token outcome)) (refreshSubscribers g)"
  by (cases parked; cases outcome)
     (simp_all add: refreshSettled_effects invoked_append invoked_callbacks)

lemma refreshSettled_resumed:
  assumes "effects g = [] \<or> \<not> is_invoke (last (effects g))"
  shows "resumed (effects (refreshSettled outcome parked g)) =
     resumed (effects g) @ map (\<lambda>w. (w, delivered_token outcome)) (refreshSubscribers g)"
  by (cases parked; cases outcome)
     (simp_all add: refreshSettled_effects resumed_append [OF assms] resumed_callbacks)

lemma refreshSettled_last:
  "\<not> is_invoke (last (effects (refreshSettled outcome parked g)))"
  by (cases parked; cases outcome)
     (simp_all add: refreshSettled_def onTokenRefreshed_def onRefreshError_def Let_def)

lemma refreshSettled_subscribed:
  "subscribed (effects (refreshSettled outcome parked g)) = subscribed (effects g)"
  by (cases parked; cases outcome)
     (simp_all add: refreshSettled_effects subscribed_append subscribed_callbacks)

lemma refreshSettled_refreshCalls:
  "refreshCalls (effects (refreshSettled outcome parked g)) = refreshCalls (effects g)"
  by (cases parked; cases outcome)
     (simp_all add: refreshSettled_effects refreshCalls_append refreshCalls_callbacks)

lemma gateway_inv_init: "gateway_inv gateway_init"
  by (simp add: gateway_inv_def gateway_init_def)

lemma gateway_inv_responseError:
  assumes "gateway_inv g"
  shows "gateway_inv (responseError config status g)"
proof -
  from assms have tail: "effects g = [] \<or> \<not> is_invoke (last (effects g))"
    by (simp add: gateway_inv_def)
  have r: "resumed (effects g @ [e]) = resumed (effects g)" if "\<not> is_invoke e" for e
    using that resumed_append [OF tail, of "[e]"] by (cases e) simp_all
  from assms
  have "subscribed (effects g) = map fst (invoked (effects g)) @ refreshSubscribers g"
       "subscribed (effects g) = map fst (resumed (effects g)) @ refreshSubscribers g"
    unfolding gateway_inv_def by blast+
  then have "map fst (invoked (effects g)) @ refreshSubscribers g =
             map fst (resumed (effects g)) @ refreshSubscribers g"
    by (rule trans [OF sym])
  then have k: "map fst (resumed (effects g)) = map fst (invoked (effects g))"
    by simp
  consider (queue) "status = Some 401" "\<not> retry config" "isRefreshing g"
    | (start) "status = Some 401" "\<not> retry config" "\<not> isRefreshing g"
    | (lost) "\<not> (status = Some 401 \<and> \<not> retry config)" "status = None"
    | (final) "\<not> (status = Some 401 \<and> \<not> retry config)" "status \<noteq> None"
    by blast
  then show ?thesis
  proof cases
    case queue
    then have "responseError config status g =
        g\<lparr>refreshSubscribers := refreshSubscribers g @ [config],
          effects := effects g @ [Subscribe config]\<rparr>"
      by (simp add: responseError_def)
    with assms queue(3) show ?thesis
      by (auto simp: gateway_inv_def subscribed_append invoked_append r k)
  next
    case start
    then have "responseError config status g =
        g\<lparr>isRefreshing := True,
          suspended := suspended g @ [(config\<lparr>retry := True\<rparr>, status)],
          effects := effects g @ [CallRefresh]\<rparr>"
      by (simp add: responseError_def)
    with assms start(3) show ?thesis
      by (auto simp: gateway_inv_def subscribed_append invoked_append r k)
  next
    case lost
    then have "responseError config status g =
        g\<lparr>effects := effects g @ [Rejected config ConnectionFailed]\<rparr>"
      by (auto simp: responseError_def)
    with assms show ?thesis
      by (auto simp: gateway_inv_def subscribed_append invoked_append r k)
  next
    case final
    then have "responseError config status g =
        g\<lparr>effects := effects g @ [Rejected config (AxiosError config status)]\<rparr>"
      by (auto simp: responseError_def)
    with assms show ?thesis
      by (auto simp: gateway_inv_def subscribed_append invoked_append r k)
  qed
qed

lemma gateway_inv_settles:
  assumes "gateway_inv g" and "i < length (suspended g)"
  shows "gateway_inv (refreshSettled outcome (suspended g ! i)
            (g\<lparr>suspended := take i (suspended g) @ drop (Suc i) (suspended g)\<rparr>))"
proof -
  from assms have "i = 0" and "length (suspended g) = 1"
    by (auto simp: gateway_inv_def)
  then have gone: "take i (suspended g) @ drop (Suc i) (suspended g) = []"
    by simp
  let ?h = "g\<lparr>suspended := []\<rparr>"
  let ?g' = "refreshSettled outcome (suspended g ! i) ?h"
  from assms(1) have tail: "effects ?h = [] \<or> \<not> is_invoke (last (effects ?h))"
    by (simp add: gateway_inv_def)
  from assms(1)
  have inv5: "subscribed (effects g) = map fst (invoked (effects g)) @ refreshSubscribers g"
   and inv6: "subscribed (effects g) = map fst (resumed (effects g)) @ refreshSubscribers g"
    unfolding gateway_inv_def by blast+
  have same: "subscribed (effects ?g') = subscribed (effects g)"
    by (simp add: refreshSettled_subscribed)
  have "map fst (invoked (effects ?g')) = map fst (invoked (effects g)) @ refreshSubscribers g"
    by (simp add: refreshSettled_invoked map_fst_pair comp_def)
  with same inv5 have sub: "subscribed (effects ?g') = map fst (invoked (effects ?g'))"
    by simp
  have "map fst (resumed (effects ?g')) = map fst (resumed (effects g)) @ refreshSubscribers g"
    by (simp add: refreshSettled_resumed [OF tail] map_fst_pair comp_def)
  with same inv6 have res: "subscribed (effects ?g') = map fst (resumed (effects ?g'))"
    by simp
  have "gateway_inv ?g'"
    using refreshSettled_queue [of outcome "suspended g ! i" ?h] sub res
          refreshSettled_last [of outcome "suspended g ! i" ?h]
    by (simp add: gateway_inv_def)
  then show ?thesis
    unfolding gone .
qed

lemma gateway_inv_step:
  assumes "gateway_inv g"
  shows "gateway_inv (gateway_step g ev)"
proof (cases ev)
  case (ResponseError config status)
  with assms show ?thesis
    by (simp add: gateway_step_def gateway_inv_responseError)
next
  case (RefreshSettles i outcome)
  with assms show ?thesis
    by (simp add: gateway_step_def gateway_inv_settles)
qed

lemma gateway_inv_run: "gateway_inv (gateway_run evs)"
proof (induction evs rule: rev_induct)
  case Nil
  show ?case by (simp add: gateway_run_def gateway_inv_init)
next
  case (snoc ev evs)
  then show ?case
    by (simp add: gateway_run_def gateway_inv_step)
qed

lemma queued_while_refreshing:
  assumes "isRefreshing g" and "\<not> retry config"
  shows "gateway_step g (ResponseError config (Some 401)) =
           g\<lparr>refreshSubscribers := refreshSubscribers g @ [config],
             effects := effects g @ [Subscribe config]\<rparr>"
  using assms by (simp add: gateway_step_def responseError_def)

lemma settle_drains:
  assumes "gateway_inv g" and "isRefreshing g"
  shows "\<exists>originalRequest status.
           suspended g = [(originalRequest, status)] \<and> retry originalRequest \<and>
           refreshSubscribers (gateway_step g (RefreshSettles 0 outcome)) = [] \<and>
           \<not> isRefreshing (gateway_step g (RefreshSettles 0 outcome)) \<and>
           suspended (gateway_step g (RefreshSettles 0 outcome)) = [] \<and>
           effects (gateway_step g (RefreshSettles 0 outcome)) =
             effects g @
             concat (map (\<lambda>w. [Invoke w (delivered_token outcome),
                                 Replay (if delivered_token outcome \<noteq> [] \<and> headers w \<noteq> None
                                         then w\<lparr>headers :=
                                                Some (Some (''Bearer '' @ delivered_token outcome))\<rparr>
                                         else w)])
                         (refreshSubscribers g)) @
             (case outcome of
                RefreshTrue authToken \<Rightarrow>
                  [Replay (if headers originalRequest \<noteq> None
                           then originalRequest\<lparr>headers :=
                                  Some (Some (''Bearer '' @ delivered_token outcome))\<rparr>
                           else originalRequest)]
              | RefreshFalse \<Rightarrow>
                  [Logout, Rejected originalRequest (AxiosError originalRequest status)]
              | RefreshThrows \<Rightarrow> [Logout, Rejected originalRequest RefreshThrew])"
proof -
  from assms obtain originalRequest status
    where one: "suspended g = [(originalRequest, status)]"
    by (cases "suspended g") (auto simp: gateway_inv_def)
  with assms(1) have marked: "retry originalRequest"
    by (simp add: gateway_inv_def)
  from one have step: "gateway_step g (RefreshSettles 0 outcome) =
      refreshSettled outcome (originalRequest, status) (g\<lparr>suspended := []\<rparr>)"
    by (simp add: gateway_step_def)
  show ?thesis
    unfolding step
    using refreshSettled_queue [of outcome "(originalRequest, status)" "g\<lparr>suspended := []\<rparr>"]
          one marked
    by (simp add: refreshSettled_effects callbacks_spelled_out)
qed

text \<open>
  C1. After any sequence of failed responses and refresh completions: at most one refresh
  call is pending, and one is pending exactly while \<^verbatim>\<open>isRefreshing\<close> is set; callbacks
  are queued only while a refresh is pending; and the callbacks queued so far are, in the
  order they were queued, those already called and resolved with the replay of their
  request, followed by those still queued, so each is resumed at most once and none is
  passed over. While a refresh is pending, a 401 for a request not marked retried only
  appends its callback to the queue and starts no refresh. When the pending refresh
  completes, the queue is emptied, the flag is cleared, and what happens is exactly this,
  in this order: each queued callback, in queue order, is called with the same token (the
  store's token, or the empty string if it has none, after a successful refresh; the empty
  string after a failed one) and resolves its caller's promise with the replay of its
  request; then the request that started the refresh is replayed (success) or the store is
  logged out and that request rejected (failure). So no queued request stays pending
  behind the refresh it waited for, and none is in the queue when a later refresh starts.
\<close>

theorem refresh_cycle_single_flight:
  "length (suspended (gateway_run evs)) \<le> 1 \<and>
   (isRefreshing (gateway_run evs) \<longleftrightarrow> suspended (gateway_run evs) \<noteq> []) \<and>
   (refreshSubscribers (gateway_run evs) \<noteq> [] \<longrightarrow> isRefreshing (gateway_run evs)) \<and>
   subscribed (effects (gateway_run evs)) =
     map fst (invoked (effects (gateway_run evs))) @ refreshSubscribers (gateway_run evs) \<and>
   subscribed (effects (gateway_run evs)) =
     map fst (resumed (effects (gateway_run evs))) @ refreshSubscribers (gateway_run evs) \<and>
   (isRefreshing (gateway_run evs) \<longrightarrow>
      (\<forall>config. \<not> retry config \<longrightarrow>
         refreshSubscribers (gateway_step (gateway_run evs) (ResponseError config (Some 401))) =
           refreshSubscribers (gateway_run evs) @ [config] \<and>
         suspended (gateway_step (gateway_run evs) (ResponseError config (Some 401))) =
           suspended (gateway_run evs) \<and>
         refreshCalls (effects (gateway_step (gateway_run evs) (ResponseError config (Some 401)))) =
           refreshCalls (effects (gateway_run evs))) \<and>
      (\<forall>outcome. \<exists>originalRequest status.
         suspended (gateway_run evs) = [(originalRequest, status)] \<and>
         retry originalRequest \<and>
         refreshSubscribers (gateway_step (gateway_run evs) (RefreshSettles 0 outcome)) = [] \<and>
         \<not> isRefreshing (gateway_step (gateway_run evs) (RefreshSettles 0 outcome)) \<and>
         suspended (gateway_step (gateway_run evs) (RefreshSettles 0 outcome)) = [] \<and>
         effects (gateway_step (gateway_run evs) (RefreshSettles 0 outcome)) =
           effects (gateway_run evs) @
           concat (map (\<lambda>w. [Invoke w (delivered_token outcome),
                               Replay (if delivered_token outcome \<noteq> [] \<and> headers w \<noteq> None
                                       then w\<lparr>headers :=
                                              Some (Some (''Bearer '' @ delivered_token outcome))\<rparr>
                                       else w)])
                       (refreshSubscribers (gateway_run evs))) @
           (case outcome of
              RefreshTrue authToken \<Rightarrow>
                [Replay (if headers originalRequest \<noteq> None
                         then originalRequest\<lparr>headers :=
                                Some (Some (''Bearer '' @ delivered_token outcome))\<rparr>
                         else originalRequest)]
            | RefreshFalse \<Rightarrow>
                [Logout, Rejected originalRequest (AxiosError originalRequest status)]
            | RefreshThrows \<Rightarrow> [Logout, Rejected originalRequest RefreshThrew]))) \<and>
   delivered_token (RefreshTrue (Some t)) = t \<and>
   delivered_token (RefreshTrue None) = [] \<and>
   delivered_token RefreshFalse = [] \<and>
   delivered_token RefreshThrows = []"
  (is "?A \<and> ?B \<and> ?C \<and> ?D \<and> ?E \<and> (?F \<longrightarrow> ?Q \<and> ?S) \<and> ?T1 \<and> ?T2 \<and> ?T3 \<and> ?T4")
proof -
  have inv: "gateway_inv (gateway_run evs)"
    by (rule gateway_inv_run)
  have t: ?T1 ?T2 ?T3 ?T4
    by (simp_all add: delivered_token_def)
  have q: "?F \<longrightarrow> ?Q"
    by (simp add: queued_while_refreshing refreshCalls_append)
  have s: "?F \<longrightarrow> ?S"
    by (intro impI allI) (erule settle_drains [OF inv])
  have qs: "?F \<longrightarrow> ?Q \<and> ?S"
  proof
    assume f: ?F
    from q f have ?Q ..
    moreover from s f have ?S ..
    ultimately show "?Q \<and> ?S" ..
  qed
  from inv have basics: ?A ?B ?C ?D ?E
    unfolding gateway_inv_def by blast+
  from basics qs t show ?thesis
    by - (intro conjI, assumption+)
qed

theorem refresh_cycle_single_flight_witness:
  "isRefreshing (gateway_run threeFailRun) \<and>
   refreshSubscribers (gateway_run threeFailRun) = [reqB, reqC] \<and>
   refreshCalls (effects (gateway_run threeFailRun)) = 1 \<and>
   refreshSubscribers (gateway_step (gateway_run threeFailRun)
      (RefreshSettles 0 (RefreshTrue (Some ''new'')))) = [] \<and>
   effects (gateway_step (gateway_run threeFailRun)
      (RefreshSettles 0 (RefreshTrue (Some ''new'')))) =
     [CallRefresh, Subscribe reqB, Subscribe reqC,
      Invoke reqB ''new'', Replay (reqB\<lparr>headers := Some (Some ''Bearer new'')\<rparr>),
      Invoke reqC ''new'', Replay (reqC\<lparr>headers := Some (Some ''Bearer new'')\<rparr>),
      Replay (reqA\<lparr>retry := True, headers := Some (Some ''Bearer new'')\<rparr>)]"
proof -
  have run: "gateway_run threeFailRun =
     \<lparr>isRefreshing = True, refreshSubscribers = [reqB, reqC],
      suspended = [(reqA\<lparr>retry := True\<rparr>, Some 401)],
      effects = [CallRefresh, Subscribe reqB, Subscribe reqC]\<rparr>"
    by (simp add: gateway_run_def threeFailRun_def gateway_init_def gateway_step_def
                  responseError_def reqA_def reqB_def reqC_def)
  have flag: "isRefreshing (gateway_run threeFailRun)"
    by (simp add: run)
  have hdr: "headers reqA \<noteq> None" "headers reqB \<noteq> None" "headers reqC \<noteq> None"
    by (simp_all add: reqA_def reqB_def reqC_def)
  from refresh_cycle_single_flight [of threeFailRun "''new''"]
  have tok: "delivered_token (RefreshTrue (Some ''new'')) = ''new''"
    by blast
  from refresh_cycle_single_flight [of threeFailRun "''new''"] flag
  obtain originalRequest status where
       parked: "suspended (gateway_run threeFailRun) = [(originalRequest, status)]" and
       empty: "refreshSubscribers (gateway_step (gateway_run threeFailRun)
          (RefreshSettles 0 (RefreshTrue (Some ''new'')))) = []" and
       fired: "effects (gateway_step (gateway_run threeFailRun)
          (RefreshSettles 0 (RefreshTrue (Some ''new'')))) =
        effects (gateway_run threeFailRun) @
        concat (map (\<lambda>w. [Invoke w (delivered_token (RefreshTrue (Some ''new''))),
                            Replay (if delivered_token (RefreshTrue (Some ''new'')) \<noteq> [] \<and>
                                       headers w \<noteq> None
                                    then w\<lparr>headers := Some (Some (''Bearer '' @
                                             delivered_token (RefreshTrue (Some ''new''))))\<rparr>
                                    else w)])
                    (refreshSubscribers (gateway_run threeFailRun))) @
        (case RefreshTrue (Some ''new'') of
           RefreshTrue authToken \<Rightarrow>
             [Replay (if headers originalRequest \<noteq> None
                      then originalRequest\<lparr>headers := Some (Some (''Bearer '' @
                             delivered_token (RefreshTrue (Some ''new''))))\<rparr>
                      else originalRequest)]
         | RefreshFalse \<Rightarrow>
             [Logout, Rejected originalRequest (AxiosError originalRequest status)]
         | RefreshThrows \<Rightarrow> [Logout, Rejected originalRequest RefreshThrew])"
    by blast
  from parked have orig: "originalRequest = reqA\<lparr>retry := True\<rparr>"
    by (simp add: run)
  have hdr': "headers (reqA\<lparr>retry := True\<rparr>) \<noteq> None"
    by (simp add: reqA_def)
  have "effects (gateway_step (gateway_run threeFailRun)
          (RefreshSettles 0 (RefreshTrue (Some ''new'')))) =
     [CallRefresh, Subscribe reqB, Subscribe reqC,
      Invoke reqB ''new'', Replay (reqB\<lparr>headers := Some (Some ''Bearer new'')\<rparr>),
      Invoke reqC ''new'', Replay (reqC\<lparr>headers := Some (Some ''Bearer new'')\<rparr>),
      Replay (reqA\<lparr>retry := True, headers := Some (Some ''Bearer new'')\<rparr>)]"
    unfolding fired orig tok by (simp add: run hdr hdr')
  with empty show ?thesis
    by (simp add: run)
qed

text \<open>
  C2. A 401 for a request already marked retried makes the handler reject with that
  error and do nothing else: no refresh is called, nothing is queued, the flag is
  untouched. Conversely the handler calls a refresh or queues a callback only for a 401
  whose request is not marked. Every request whose handler is waiting for a refresh has
  been marked before the wait.
\<close>

theorem retried_401_is_terminal:
  "(retry config \<longrightarrow>
      gateway_step g (ResponseError config (Some 401)) =
        g\<lparr>effects := effects g @ [Rejected config (AxiosError config (Some 401))]\<rparr>) \<and>
   (refreshCalls (effects (gateway_step g (ResponseError config status))) \<noteq>
      refreshCalls (effects g) \<or>
    refreshSubscribers (gateway_step g (ResponseError config status)) \<noteq> refreshSubscribers g \<or>
    isRefreshing (gateway_step g (ResponseError config status)) \<noteq> isRefreshing g
      \<longrightarrow> status = Some 401 \<and> \<not> retry config) \<and>
   list_all (\<lambda>p. retry (fst p)) (suspended (gateway_run evs))"
proof -
  have terminal: "retry config \<longrightarrow>
      gateway_step g (ResponseError config (Some 401)) =
        g\<lparr>effects := effects g @ [Rejected config (AxiosError config (Some 401))]\<rparr>"
    by (simp add: gateway_step_def responseError_def)
  have only: "refreshCalls (effects (gateway_step g (ResponseError config status))) \<noteq>
      refreshCalls (effects g) \<or>
    refreshSubscribers (gateway_step g (ResponseError config status)) \<noteq> refreshSubscribers g \<or>
    isRefreshing (gateway_step g (ResponseError config status)) \<noteq> isRefreshing g
      \<longrightarrow> status = Some 401 \<and> \<not> retry config"
    by (auto simp: gateway_step_def responseError_def refreshCalls_append split: if_splits)
  have marked: "list_all (\<lambda>p. retry (fst p)) (suspended (gateway_run evs))"
    using gateway_inv_run [of evs] unfolding gateway_inv_def by blast
  from terminal only marked show ?thesis by blast
qed

theorem retried_401_is_terminal_witness:
  "gateway_step gateway_init (ResponseError (reqA\<lparr>retry := True\<rparr>) (Some 401)) =
     gateway_init\<lparr>effects :=
       [Rejected (reqA\<lparr>retry := True\<rparr>) (AxiosError (reqA\<lparr>retry := True\<rparr>) (Some 401))]\<rparr> \<and>
   refreshCalls (effects (gateway_step gateway_init (ResponseError reqA (Some 401)))) = 1"
proof -
  have marked: "retry (reqA\<lparr>retry := True\<rparr>)" by simp
  have fresh: "refreshCalls (effects (gateway_step gateway_init (ResponseError reqA (Some 401)))) = 1"
    by (simp add: gateway_step_def responseError_def gateway_init_def reqA_def)
  from retried_401_is_terminal [of "reqA\<lparr>retry := True\<rparr>" gateway_init "Some 401" "[]"] marked
  have "gateway_step gateway_init (ResponseError (reqA\<lparr>retry := True\<rparr>) (Some 401)) =
     gateway_init\<lparr>effects := effects gateway_init @
       [Rejected (reqA\<lparr>retry := True\<rparr>) (AxiosError (reqA\<lparr>retry := True\<rparr>) (Some 401))]\<rparr>"
    by blast
  with fresh show ?thesis
    by (simp add: gateway_init_def)
qed

text \<open>
  C3, evaluated where it fails. Request A gets a 401 and starts the refresh, request B
  gets a 401 meanwhile and is queued, and the refresh answers false. The flag is cleared,
  the queue is emptied, the store is logged out and A is rejected with its error; B's
  callback is called with the empty string and sends B again as it was, so B's caller gets
  whatever that replay yields instead of a rejection.
\<close>

theorem refresh_failure_replays_waiter:
  "effects (gateway_run refreshFailsRun) =
     [CallRefresh, Subscribe reqB, Invoke reqB [], Replay reqB, Logout,
      Rejected (reqA\<lparr>retry := True\<rparr>) (AxiosError (reqA\<lparr>retry := True\<rparr>) (Some 401))] \<and>
   \<not> isRefreshing (gateway_run refreshFailsRun) \<and>
   refreshSubscribers (gateway_run refreshFailsRun) = []"
  by (simp add: gateway_run_def refreshFailsRun_def gateway_init_def gateway_step_def
                responseError_def refreshSettled_def onRefreshError_def callback_def
                reqA_def reqB_def Let_def)

end
